theory Spec2Isabelle
  imports Complex_Main "HOL-Library.Product_Lexorder" "HOL-Library.Code_Target_Numeral"
begin

section \<open>Python values\<close>

text \<open>
  The flight tool is Python. Its values are modelled as follows.
  \<^item> A \<open>str\<close> is a \<open>string\<close>; a character is read as the code point 0..255 it
    encodes, so the character tables below cover ASCII and Latin-1. Strings with code points
    above 255 are outside the model.
  \<^item> An exception is a value of \<open>py_error\<close>; a function that can raise returns
    \<open>py_error + 'a\<close>, with \<open>Inl\<close> for the exception.
  \<^item> A \<open>float\<close> is a \<open>pyfloat\<close>: a finite binary64 value kept as the real number
    it denotes (the sign of zero is dropped), the two infinities and NaN.
  \<^item> A decoded JSON document (what \<open>json.load\<close> returns) is a \<open>pyval\<close>. The items of a
    \<open>PDict\<close> are in insertion order; a lookup takes the first item with the key, and a
    Python dict never holds a key twice.
\<close>

datatype py_error = ValueError | TypeError | KeyError | AttributeError | OverflowError

datatype pyfloat = Finite real | PosInf | NegInf | NaN

datatype pyval =
    PNone
  | PBool bool
  | PInt int
  | PFloat pyfloat
  | PStr string
  | PList "pyval list"
  | PDict "(string \<times> pyval) list"

subsection \<open>Character classes of \<open>str\<close> methods and of \<open>re\<close>\<close>

text \<open>\<open>ord(c)\<close>.\<close>

definition py_ord :: "char \<Rightarrow> nat" where
  "py_ord c = of_char c"

definition in_range :: "nat \<Rightarrow> nat \<Rightarrow> char \<Rightarrow> bool" where
  "in_range lo hi c = (lo \<le> py_ord c \<and> py_ord c \<le> hi)"

text \<open>Unicode category Nd below 256: the ASCII digits (\<open>str.isdecimal\<close>, \<open>\d\<close>).\<close>

definition char_isdecimal :: "char \<Rightarrow> bool" where
  "char_isdecimal c = in_range 48 57 c"

text \<open>\<open>str.isdigit\<close> adds the superscripts 2, 3, 1; \<open>str.isnumeric\<close> the fractions.\<close>

definition char_isdigit :: "char \<Rightarrow> bool" where
  "char_isdigit c = (char_isdecimal c \<or> py_ord c \<in> {178, 179, 185})"

definition char_isnumeric :: "char \<Rightarrow> bool" where
  "char_isnumeric c = (char_isdigit c \<or> in_range 188 190 c)"

definition char_isupper :: "char \<Rightarrow> bool" where
  "char_isupper c = (in_range 65 90 c \<or> in_range 192 214 c \<or> in_range 216 222 c)"

definition char_islower :: "char \<Rightarrow> bool" where
  "char_islower c =
     (in_range 97 122 c \<or> py_ord c \<in> {170, 181, 186} \<or> in_range 223 246 c \<or> in_range 248 255 c)"

definition char_isalpha :: "char \<Rightarrow> bool" where
  "char_isalpha c = (char_isupper c \<or> char_islower c)"

definition char_isalnum :: "char \<Rightarrow> bool" where
  "char_isalnum c = (char_isalpha c \<or> char_isnumeric c)"

text \<open>Whitespace of \<open>str.isspace\<close> and of \<open>\s\<close> in a \<open>str\<close> pattern.\<close>

definition char_isspace :: "char \<Rightarrow> bool" where
  "char_isspace c = (in_range 9 13 c \<or> in_range 28 32 c \<or> py_ord c \<in> {133, 160})"

text \<open>\<open>s.isalnum()\<close>, \<open>s.isalpha()\<close>: at least one character, and all of them in the class.\<close>

definition isalnum :: "string \<Rightarrow> bool" where
  "isalnum s = (s \<noteq> [] \<and> list_all char_isalnum s)"

definition isalpha :: "string \<Rightarrow> bool" where
  "isalpha s = (s \<noteq> [] \<and> list_all char_isalpha s)"

text \<open>\<open>s.isupper()\<close>: no lowercase character and at least one uppercase one.\<close>

definition isupper :: "string \<Rightarrow> bool" where
  "isupper s = (list_all (\<lambda>c. \<not> char_islower c) s \<and> list_ex char_isupper s)"

section \<open>\<open>datetime.strptime\<close>\<close>

text \<open>
  \<open>datetime.strptime(data_string, format)\<close> compiles the format into a regular expression
  (\<open>_strptime.TimeRE.pattern\<close>): a run of whitespace becomes \<open>\s+\<close>, a directive
  \<open>%x\<close> becomes its named group, every other character stands for itself. The groups of the
  directives this program uses are
  \<^verbatim>\<open>
    'd': (?P<d>3[0-1]|[1-2]\d|0[1-9]|[1-9]| [1-9])
    'H': (?P<H>2[0-3]|[0-1]\d|\d)
    'm': (?P<m>1[0-2]|0[1-9]|[1-9])
    'M': (?P<M>[0-5]\d|\d)
    'Y': (?P<Y>\d\d\d\d)
  \<close>
  Each alternative is a sequence of character classes; a class is written as the string of
  its members. Formats with another directive, or with one directive twice, are outside
  the model (\<open>pattern\<close> answers \<open>None\<close> for them).
\<close>

datatype re_item = Group char "string list list" | Lit char | Spaces

definition digits :: string where
  "digits = ''0123456789''"

definition nonzero :: string where
  "nonzero = ''123456789''"

definition directive :: "char \<Rightarrow> string list list option" where
  "directive c =
     (if c = CHR ''d'' then
        Some [[''3'', ''01''], [''12'', digits], [''0'', nonzero], [nonzero], ['' '', nonzero]]
      else if c = CHR ''H'' then Some [[''2'', ''0123''], [''01'', digits], [digits]]
      else if c = CHR ''m'' then Some [[''1'', ''012''], [''0'', nonzero], [nonzero]]
      else if c = CHR ''M'' then Some [[''012345'', digits], [digits]]
      else if c = CHR ''Y'' then Some [[digits, digits, digits, digits]]
      else None)"

function pattern :: "string \<Rightarrow> re_item list option" where
  "pattern [] = Some []"
| "pattern (c # cs) =
     (if c = CHR ''%'' then
        (case cs of
           [] \<Rightarrow> None
         | d # rest \<Rightarrow>
             (case directive d of
                None \<Rightarrow> None
              | Some alts \<Rightarrow>
                  (case pattern rest of
                     None \<Rightarrow> None
                   | Some items \<Rightarrow>
                       if d \<in> set (concat (map (\<lambda>i. case i of Group g _ \<Rightarrow> [g] | _ \<Rightarrow> []) items))
                       then None else Some (Group d alts # items))))
      else if char_isspace c then map_option (Cons Spaces) (pattern (dropWhile char_isspace cs))
      else map_option (Cons (Lit c)) (pattern cs))"
  by pat_completeness auto
termination
  by (relation "measure length") (auto simp: length_dropWhile_le less_Suc_eq_le)

text \<open>One alternative against the head of the text: the matched text and the rest.\<close>

fun match_alt :: "string list \<Rightarrow> string \<Rightarrow> (string \<times> string) option" where
  "match_alt [] s = Some ([], s)"
| "match_alt (cls # rest) [] = None"
| "match_alt (cls # rest) (c # s) =
     (if c \<in> set cls then
        (case match_alt rest s of None \<Rightarrow> None | Some (m, r) \<Rightarrow> Some (c # m, r))
      else None)"

text \<open>The alternatives of a group that match, in the order the engine tries them.\<close>

definition match_group :: "string list list \<Rightarrow> string \<Rightarrow> (string \<times> string) list" where
  "match_group alts s = List.map_filter (\<lambda>alt. match_alt alt s) alts"

text \<open>\<open>\s+\<close> is greedy: the rests after the longest run of whitespace first, down to one.\<close>

definition spaces_rests :: "string \<Rightarrow> string list" where
  "spaces_rests s = map (\<lambda>k. drop k s) (rev [1 ..< Suc (length (takeWhile char_isspace s))])"

text \<open>The pattern is compiled with \<open>IGNORECASE\<close>: a literal letter matches both cases.\<close>

definition fold_case :: "char \<Rightarrow> char" where
  "fold_case c = (if in_range 65 90 c then char_of (py_ord c + 32) else c)"

text \<open>
  All the ways the items match a prefix of the text, in the order the backtracking engine
  finds them: the groups' texts and the text left over. \<open>re.match\<close> answers the first.
\<close>

fun re_match :: "re_item list \<Rightarrow> string \<Rightarrow> ((char \<times> string) list \<times> string) list" where
  "re_match [] s = [([], s)]"
| "re_match (Group g alts # items) s =
     concat (map (\<lambda>(m, r). map (\<lambda>(gs, r'). ((g, m) # gs, r')) (re_match items r))
                 (match_group alts s))"
| "re_match (Lit c # items) s =
     (case s of [] \<Rightarrow> [] | x # r \<Rightarrow> if fold_case x = fold_case c then re_match items r else [])"
| "re_match (Spaces # items) s = concat (map (re_match items) (spaces_rests s))"

text \<open>A naive \<open>datetime\<close>; seconds and microseconds are always 0 here.\<close>

record datetime =
  year :: nat
  month :: nat
  day :: nat
  hour :: nat
  minute :: nat

text \<open>Python compares two datetimes as the tuples of their fields.\<close>

definition dt_key :: "datetime \<Rightarrow> nat \<times> nat \<times> nat \<times> nat \<times> nat" where
  "dt_key d = (year d, month d, day d, hour d, minute d)"

definition dt_less :: "datetime \<Rightarrow> datetime \<Rightarrow> bool" where
  "dt_less a b = (dt_key a < dt_key b)"

definition dt_le :: "datetime \<Rightarrow> datetime \<Rightarrow> bool" where
  "dt_le a b = (dt_key a \<le> dt_key b)"

text \<open>\<open>int(s)\<close> on the text of a group: decimal digits, a leading blank skipped.\<close>

definition int_of_group :: "string \<Rightarrow> nat" where
  "int_of_group s = foldl (\<lambda>n c. 10 * n + (py_ord c - 48)) 0 (filter char_isdecimal s)"

definition is_leap :: "nat \<Rightarrow> bool" where
  "is_leap y = (y mod 4 = 0 \<and> (y mod 100 \<noteq> 0 \<or> y mod 400 = 0))"

definition days_in_month :: "nat \<Rightarrow> nat \<Rightarrow> nat" where
  "days_in_month y m =
     (if m = 2 then (if is_leap y then 29 else 28)
      else if m \<in> {4, 6, 9, 11} then 30 else 31)"

definition group_value :: "(char \<times> string) list \<Rightarrow> char \<Rightarrow> nat \<Rightarrow> nat" where
  "group_value gs g dflt = (case map_of gs g of None \<Rightarrow> dflt | Some s \<Rightarrow> int_of_group s)"

text \<open>
  The fields default to 1900-01-01 00:00; the date constructor raises \<open>ValueError\<close> for a
  year outside 1..9999 and for a day the month does not have.
\<close>

definition build_datetime :: "(char \<times> string) list \<Rightarrow> py_error + datetime" where
  "build_datetime gs =
     (let y = group_value gs (CHR ''Y'') 1900;
          m = group_value gs (CHR ''m'') 1;
          d = group_value gs (CHR ''d'') 1;
          h = group_value gs (CHR ''H'') 0;
          mi = group_value gs (CHR ''M'') 0
      in if 1 \<le> y \<and> y \<le> 9999 \<and> 1 \<le> m \<and> m \<le> 12 \<and> 1 \<le> d \<and> d \<le> days_in_month y m
         then Inr \<lparr>year = y, month = m, day = d, hour = h, minute = mi\<rparr>
         else Inl ValueError)"

text \<open>
  \<open>strptime\<close> on a \<open>str\<close>: no match, or text left after the first match
  ("unconverted data remains"), is a \<open>ValueError\<close>.
\<close>

definition strptime :: "string \<Rightarrow> string \<Rightarrow> py_error + datetime" where
  "strptime data_string format =
     (case pattern format of
        None \<Rightarrow> Inl ValueError
      | Some items \<Rightarrow>
          (case re_match items data_string of
             [] \<Rightarrow> Inl ValueError
           | (gs, rest) # _ \<Rightarrow> if rest \<noteq> [] then Inl ValueError else build_datetime gs))"

section \<open>\<open>float\<close>\<close>

subsection \<open>Rounding to binary64\<close>

text \<open>\<open>int.bit_length\<close>.\<close>

fun bit_length :: "nat \<Rightarrow> nat" where
  "bit_length n = (if n = 0 then 0 else Suc (bit_length (n div 2)))"

declare bit_length.simps [simp del]

text \<open>\<open>n / d\<close> rounded to the nearest integer, a tie to the even one.\<close>

definition rne_div :: "nat \<Rightarrow> nat \<Rightarrow> nat" where
  "rne_div n d =
     (let m = n div d; r = n mod d
      in if d < 2 * r \<or> (2 * r = d \<and> odd m) then m + 1 else m)"

text \<open>The largest \<open>e\<close> with \<open>2 ^ e \<le> p / q\<close>, for positive \<open>p\<close> and \<open>q\<close>.\<close>

definition floor_log2 :: "nat \<Rightarrow> nat \<Rightarrow> int" where
  "floor_log2 p q =
     (let e0 = int (bit_length p) - int (bit_length q)
      in if (if 0 \<le> e0 then q * 2 ^ nat e0 \<le> p else q \<le> p * 2 ^ nat (- e0))
         then e0 else e0 - 1)"

text \<open>
  The binary64 value nearest to \<open>p / q\<close> (ties to even): 53 bits of mantissa above the
  exponent -1022, a fixed step of \<open>2 ^ -1074\<close> below it; \<open>None\<close> when the rounded value
  does not fit (it reaches \<open>2 ^ 1024\<close>).
\<close>

definition round_double :: "nat \<Rightarrow> nat \<Rightarrow> real option" where
  "round_double p q =
     (if p = 0 then Some 0
      else
        let e = floor_log2 p q;
            u = max (e - 52) (- 1074)
        in if 0 \<le> u then
             (let m = rne_div p (q * 2 ^ nat u)
              in if 2 ^ 1024 \<le> m * 2 ^ nat u then None else Some (real (m * 2 ^ nat u)))
           else Some (real (rne_div (p * 2 ^ nat (- u)) q) / 2 ^ nat (- u)))"

subsection \<open>Comparing floats\<close>

fun float_less :: "pyfloat \<Rightarrow> pyfloat \<Rightarrow> bool" where
  "float_less NaN _ = False"
| "float_less _ NaN = False"
| "float_less (Finite x) (Finite y) = (x < y)"
| "float_less NegInf NegInf = False"
| "float_less NegInf _ = True"
| "float_less _ NegInf = False"
| "float_less PosInf _ = False"
| "float_less _ PosInf = True"

definition float_eq :: "pyfloat \<Rightarrow> pyfloat \<Rightarrow> bool" where
  "float_eq a b = (a \<noteq> NaN \<and> a = b)"

definition float_le :: "pyfloat \<Rightarrow> pyfloat \<Rightarrow> bool" where
  "float_le a b = (float_less a b \<or> float_eq a b)"

definition float_neg :: "pyfloat \<Rightarrow> pyfloat" where
  "float_neg f = (case f of Finite x \<Rightarrow> Finite (- x) | PosInf \<Rightarrow> NegInf | NegInf \<Rightarrow> PosInf | NaN \<Rightarrow> NaN)"

subsection \<open>\<open>float(s)\<close> for a \<open>str\<close>\<close>

text \<open>The C locale's \<open>isspace\<close> (\<open>Py_ISSPACE\<close>).\<close>

definition c_isspace :: "char \<Rightarrow> bool" where
  "c_isspace c = (in_range 9 13 c \<or> py_ord c = 32)"

text \<open>
  A string that is not pure ASCII is first rewritten: Unicode whitespace becomes a blank,
  and the text is cut after the first other character from 127 on, which becomes \<open>?\<close>.
\<close>

fun transform_ascii :: "string \<Rightarrow> string" where
  "transform_ascii [] = []"
| "transform_ascii (c # cs) =
     (if py_ord c < 127 then c # transform_ascii cs
      else if char_isspace c then CHR '' '' # transform_ascii cs
      else ''?'')"

definition to_ascii :: "string \<Rightarrow> string" where
  "to_ascii s = (if list_all (\<lambda>c. py_ord c < 128) s then s else transform_ascii s)"

text \<open>
  Underscores are dropped; each must stand between two digits. The first argument is the
  character before (NUL at the start).
\<close>

fun strip_underscores :: "char \<Rightarrow> string \<Rightarrow> string option" where
  "strip_underscores prev [] = (if prev = CHR ''_'' then None else Some [])"
| "strip_underscores prev (p # ps) =
     (if p = CHR ''_'' then
        (if char_isdecimal prev then strip_underscores p ps else None)
      else if prev = CHR ''_'' \<and> \<not> char_isdecimal p then None
      else map_option (Cons p) (strip_underscores p ps))"

definition split_sign :: "string \<Rightarrow> bool \<times> string" where
  "split_sign s =
     (case s of
        [] \<Rightarrow> (False, [])
      | c # r \<Rightarrow> if c = CHR ''-'' then (True, r) else if c = CHR ''+'' then (False, r) else (False, s))"

definition nat_of_digits :: "string \<Rightarrow> nat" where
  "nat_of_digits s = foldl (\<lambda>n c. 10 * n + (py_ord c - 48)) 0 s"

text \<open>
  A decimal literal: digits with an optional point, at least one digit, an optional
  exponent. The answer is the mantissa's digits as a number and the power of ten.
\<close>

definition parse_decimal :: "string \<Rightarrow> (nat \<times> int) option" where
  "parse_decimal s =
     (let ip = takeWhile char_isdecimal s;
          r1 = dropWhile char_isdecimal s;
          fp = (case r1 of [] \<Rightarrow> [] | c # t \<Rightarrow> if c = CHR ''.'' then takeWhile char_isdecimal t else []);
          r2 = (case r1 of [] \<Rightarrow> [] | c # t \<Rightarrow> if c = CHR ''.'' then dropWhile char_isdecimal t else r1)
      in if ip = [] \<and> fp = [] then None
         else
           (case r2 of
              [] \<Rightarrow> Some (nat_of_digits (ip @ fp), - int (length fp))
            | c # t \<Rightarrow>
                if c = CHR ''e'' \<or> c = CHR ''E'' then
                  (let (eneg, ds) = split_sign t
                   in if ds \<noteq> [] \<and> list_all char_isdecimal ds then
                        Some (nat_of_digits (ip @ fp),
                              (if eneg then - int (nat_of_digits ds) else int (nat_of_digits ds))
                                - int (length fp))
                      else None)
                else None))"

definition float_of_decimal :: "nat \<Rightarrow> int \<Rightarrow> pyfloat" where
  "float_of_decimal n k =
     (case (if 0 \<le> k then round_double (n * 10 ^ nat k) 1 else round_double n (10 ^ nat (- k))) of
        None \<Rightarrow> PosInf
      | Some x \<Rightarrow> Finite x)"

text \<open>The text between the surrounding whitespace: a decimal literal, or \<open>inf\<close>,
  \<open>infinity\<close> or \<open>nan\<close> in any case, each with an optional sign.\<close>

definition parse_float_literal :: "string \<Rightarrow> py_error + pyfloat" where
  "parse_float_literal s =
     (let (neg, r) = split_sign s
      in case parse_decimal r of
           Some (n, k) \<Rightarrow> Inr (if neg then float_neg (float_of_decimal n k) else float_of_decimal n k)
         | None \<Rightarrow>
             (let w = map fold_case r
              in if w = ''inf'' \<or> w = ''infinity'' then Inr (if neg then NegInf else PosInf)
                 else if w = ''nan'' then Inr NaN
                 else Inl ValueError))"

definition float_from_string_inner :: "string \<Rightarrow> py_error + pyfloat" where
  "float_from_string_inner s =
     (let s1 = dropWhile c_isspace s
      in if s1 = [] then Inl ValueError
         else parse_float_literal (rev (dropWhile c_isspace (rev s1))))"

definition float_of_str :: "string \<Rightarrow> py_error + pyfloat" where
  "float_of_str s =
     (let a = to_ascii s
      in if CHR ''_'' \<notin> set a then float_from_string_inner a
         else (case strip_underscores (CHR 0x00) a of
                 None \<Rightarrow> Inl ValueError
               | Some d \<Rightarrow> float_from_string_inner d))"

subsection \<open>\<open>float(x)\<close> for a decoded JSON value\<close>

text \<open>
  An \<open>int\<close> is rounded, and one too large raises \<open>OverflowError\<close>; \<open>bool\<close> is a subclass of
  \<open>int\<close>; \<open>None\<close>, a list and a dict raise \<open>TypeError\<close>.
\<close>

definition float_of_int :: "int \<Rightarrow> py_error + pyfloat" where
  "float_of_int i =
     (case round_double (nat \<bar>i\<bar>) 1 of
        None \<Rightarrow> Inl OverflowError
      | Some x \<Rightarrow> Inr (Finite (if i < 0 then - x else x)))"

fun py_float :: "pyval \<Rightarrow> py_error + pyfloat" where
  "py_float (PFloat f) = Inr f"
| "py_float (PInt i) = float_of_int i"
| "py_float (PBool b) = Inr (Finite (if b then 1 else 0))"
| "py_float (PStr s) = float_of_str s"
| "py_float PNone = Inl TypeError"
| "py_float (PList xs) = Inl TypeError"
| "py_float (PDict kvs) = Inl TypeError"

section \<open>Exceptions\<close>

text \<open>Sequencing: an exception of the first step ends the computation.\<close>

definition py_bind :: "py_error + 'a \<Rightarrow> ('a \<Rightarrow> py_error + 'b) \<Rightarrow> py_error + 'b" where
  "py_bind m f = (case m of Inl e \<Rightarrow> Inl e | Inr x \<Rightarrow> f x)"

text \<open>
  \<open>try: body except (E1, E2): handler\<close>: the handler answers for the listed exceptions, any
  other exception goes on to the caller.
\<close>

definition try_except :: "py_error + 'a \<Rightarrow> py_error list \<Rightarrow> 'a \<Rightarrow> py_error + 'a" where
  "try_except body handled handler =
     (case body of
        Inl e \<Rightarrow> if e \<in> set handled then Inr handler else Inl e
      | Inr x \<Rightarrow> Inr x)"

section \<open>The validator (\<open>validator.py\<close>)\<close>

text \<open>
  A raw record is the dict the CSV reader hands over: field name to text, both stripped,
  an absent cell as the empty string (\<open>parser.py\<close>, \<open>CSVParser.parse_file\<close>).
\<close>

type_synonym raw_record = "string \<rightharpoonup> string"

definition VALID_AIRPORTS :: "string list" where
  "VALID_AIRPORTS =
     [''LHR'', ''JFK'', ''FRA'', ''RIX'', ''OSL'', ''HEL'', ''ARN'', ''CDG'', ''DXB'',
      ''DOH'', ''SYD'', ''AMS'', ''LAX'', ''BRU'', ''ORD'', ''ATL'', ''DFW'', ''DEN'',
      ''SFO'', ''SEA'', ''MIA'', ''MCO'', ''LAS'', ''PHX'', ''IAH'', ''EWR'', ''IST'',
      ''CLT'', ''MSP'', ''DTW'', ''PHL'', ''LGA'', ''BOS'', ''SLC'', ''BWI'', ''TPA'',
      ''SAN'', ''PDX'', ''STL'', ''HNL'', ''SVO'', ''LON'']"

text \<open>\<open>FlightValidator.datetime_format\<close>.\<close>

definition datetime_format :: string where
  "datetime_format = ''%m/%d/%Y %H:%M''"

definition required_fields :: "string list" where
  "required_fields =
     [''flight_id'', ''origin'', ''destination'', ''departure_datetime'', ''arrival_datetime'',
      ''price'']"

text \<open>\<open>flight_data[key]\<close>.\<close>

definition getitem :: "raw_record \<Rightarrow> string \<Rightarrow> py_error + string" where
  "getitem flight_data key = (case flight_data key of None \<Rightarrow> Inl KeyError | Some v \<Rightarrow> Inr v)"

text \<open>\<open>_validate_flight_id\<close>.\<close>

definition validate_flight_id :: "string \<Rightarrow> bool" where
  "validate_flight_id flight_id =
     (if flight_id = [] then False
      else if length flight_id < 2 \<or> length flight_id > 8 then False
      else isalnum flight_id)"

text \<open>\<open>_validate_airport_code\<close>.\<close>

definition validate_airport_code :: "string \<Rightarrow> bool" where
  "validate_airport_code code =
     (if code = [] then False
      else if length code \<noteq> 3 then False
      else if \<not> isupper code \<or> \<not> isalpha code then False
      else code \<in> set VALID_AIRPORTS)"

text \<open>The loop over the required fields; \<open>errors\<close> is the list built so far.\<close>

definition field_missing :: "raw_record \<Rightarrow> string \<Rightarrow> bool" where
  "field_missing flight_data field = (flight_data field = None \<or> flight_data field = Some [])"

fun missing_loop :: "raw_record \<Rightarrow> string list \<Rightarrow> string list \<Rightarrow> string list" where
  "missing_loop flight_data [] errors = errors"
| "missing_loop flight_data (field # rest) errors =
     missing_loop flight_data rest
       (if field_missing flight_data field then errors @ [''missing '' @ field @ '' field'']
        else errors)"

definition check_flight_id :: "raw_record \<Rightarrow> string list \<Rightarrow> py_error + string list" where
  "check_flight_id flight_data errors =
     py_bind (getitem flight_data ''flight_id'') (\<lambda>v.
       Inr (if \<not> validate_flight_id v
            then errors @ [''invalid flight_id (must be 2-8 alphanumeric characters)'']
            else errors))"

definition check_airport :: "raw_record \<Rightarrow> string \<Rightarrow> string list \<Rightarrow> py_error + string list" where
  "check_airport flight_data field errors =
     py_bind (getitem flight_data field) (\<lambda>v.
       Inr (if \<not> validate_airport_code v then errors @ [''invalid '' @ field @ '' code'']
            else errors))"

text \<open>
  The two \<open>try\<close> blocks around \<open>strptime\<close>: the variable stays \<open>None\<close> and a reason is
  appended on \<open>ValueError\<close> or \<open>TypeError\<close>.
\<close>

definition try_datetime ::
  "raw_record \<Rightarrow> string \<Rightarrow> string \<Rightarrow> string list \<Rightarrow> py_error + (datetime option \<times> string list)" where
  "try_datetime flight_data field reason errors =
     try_except
       (py_bind (getitem flight_data field) (\<lambda>v.
        py_bind (strptime v datetime_format) (\<lambda>dt. Inr (Some dt, errors))))
       [ValueError, TypeError]
       (None, errors @ [reason])"

text \<open>\<open>if departure_dt and arrival_dt\<close>: a datetime is never falsy.\<close>

definition check_order :: "datetime option \<Rightarrow> datetime option \<Rightarrow> string list \<Rightarrow> string list" where
  "check_order departure_dt arrival_dt errors =
     (case (departure_dt, arrival_dt) of
        (Some d, Some a) \<Rightarrow> if dt_le a d then errors @ [''arrival before departure''] else errors
      | _ \<Rightarrow> errors)"

definition check_price :: "raw_record \<Rightarrow> string list \<Rightarrow> py_error + string list" where
  "check_price flight_data errors =
     try_except
       (py_bind (getitem flight_data ''price'') (\<lambda>v.
        py_bind (float_of_str v) (\<lambda>price.
          Inr (if float_le price (Finite 0) then errors @ [''negative price value'']
               else errors))))
       [ValueError, TypeError]
       (errors @ [''invalid price format''])"

text \<open>\<open>FlightValidator.validate_flight\<close>: the pair \<open>(is_valid, error_messages)\<close>.\<close>

definition validate_flight :: "raw_record \<Rightarrow> py_error + (bool \<times> string list)" where
  "validate_flight flight_data =
     (let errors = missing_loop flight_data required_fields []
      in if errors \<noteq> [] then Inr (False, errors)
         else
           py_bind (check_flight_id flight_data errors) (\<lambda>errors.
           py_bind (check_airport flight_data ''origin'' errors) (\<lambda>errors.
           py_bind (check_airport flight_data ''destination'' errors) (\<lambda>errors.
           py_bind (try_datetime flight_data ''departure_datetime''
                      ''invalid departure datetime'' errors) (\<lambda>(departure_dt, errors).
           py_bind (try_datetime flight_data ''arrival_datetime''
                      ''invalid arrival datetime'' errors) (\<lambda>(arrival_dt, errors).
           py_bind (check_price flight_data (check_order departure_dt arrival_dt errors))
             (\<lambda>errors. Inr (length errors = 0, errors))))))))"

text \<open>\<open>FlightValidator.convert_to_typed_flight\<close>.\<close>

definition convert_to_typed_flight :: "raw_record \<Rightarrow> py_error + pyval" where
  "convert_to_typed_flight flight_data =
     py_bind (getitem flight_data ''flight_id'') (\<lambda>fid.
     py_bind (getitem flight_data ''origin'') (\<lambda>orig.
     py_bind (getitem flight_data ''destination'') (\<lambda>dest.
     py_bind (getitem flight_data ''departure_datetime'') (\<lambda>dep.
     py_bind (getitem flight_data ''arrival_datetime'') (\<lambda>arr.
     py_bind (getitem flight_data ''price'') (\<lambda>p.
     py_bind (float_of_str p) (\<lambda>price.
       Inr (PDict [(''flight_id'', PStr fid), (''origin'', PStr orig),
                   (''destination'', PStr dest), (''departure_datetime'', PStr dep),
                   (''arrival_datetime'', PStr arr), (''price'', PFloat price)]))))))))"

text \<open>
  What \<open>CSVParser.parse_file\<close> does with one cleaned row: the typed flight goes to the
  valid flights, or the reasons go to the error log.
\<close>

datatype row_result = Accepted pyval | Rejected "string list"

definition validate_row :: "raw_record \<Rightarrow> py_error + row_result" where
  "validate_row flight_data =
     py_bind (validate_flight flight_data) (\<lambda>(is_valid, error_messages).
       if is_valid then py_bind (convert_to_typed_flight flight_data) (\<lambda>typed_flight.
                          Inr (Accepted typed_flight))
       else Inr (Rejected error_messages))"

section \<open>Operations on decoded JSON values\<close>

text \<open>
  \<open>a == b\<close>: numbers (\<open>bool\<close>, \<open>int\<close>, \<open>float\<close>) compare by value and NaN equals
  nothing; lists compare item by item; dicts have the same number of items and equal
  values under each key; values of different kinds are unequal.

  The items of two lists, and the values of two dicts, are compared with a short cut: two
  items that are the same object count as equal without being compared. \<open>json.load\<close>
  answers one shared object for every \<open>NaN\<close> it reads, and NaN is the only value that does
  not equal itself, so the short cut shows exactly there: \<open>[NaN] == [NaN]\<close> holds for two
  decoded lists, although \<open>NaN == NaN\<close> does not. A list or a dict inside a \<open>pyval\<close> is
  always a decoded one: the typed record of an accepted row holds strings and one float.
\<close>

definition num_of :: "pyval \<Rightarrow> pyfloat option" where
  "num_of v =
     (case v of
        PBool b \<Rightarrow> Some (Finite (if b then 1 else 0))
      | PInt i \<Rightarrow> Some (Finite (of_int i))
      | PFloat f \<Rightarrow> Some f
      | _ \<Rightarrow> None)"

text \<open>\<open>x is y\<close> for two items of decoded documents, where it differs from \<open>x == y\<close>.\<close>

definition same_object :: "pyval \<Rightarrow> pyval \<Rightarrow> bool" where
  "same_object x y = (x = PFloat NaN \<and> y = PFloat NaN)"

fun py_eq :: "pyval \<Rightarrow> pyval \<Rightarrow> bool"
  and py_eq_list :: "pyval list \<Rightarrow> pyval list \<Rightarrow> bool"
  and py_eq_items :: "(string \<times> pyval) list \<Rightarrow> (string \<times> pyval) list \<Rightarrow> bool" where
  "py_eq PNone b = (b = PNone)"
| "py_eq (PStr s) b = (b = PStr s)"
| "py_eq (PBool x) b =
     (case num_of b of None \<Rightarrow> False | Some y \<Rightarrow> float_eq (Finite (if x then 1 else 0)) y)"
| "py_eq (PInt i) b =
     (case num_of b of None \<Rightarrow> False | Some y \<Rightarrow> float_eq (Finite (of_int i)) y)"
| "py_eq (PFloat f) b = (case num_of b of None \<Rightarrow> False | Some y \<Rightarrow> float_eq f y)"
| "py_eq (PList xs) b = (case b of PList ys \<Rightarrow> py_eq_list xs ys | _ \<Rightarrow> False)"
| "py_eq (PDict xs) b =
     (case b of PDict ys \<Rightarrow> length xs = length ys \<and> py_eq_items xs ys | _ \<Rightarrow> False)"
| "py_eq_list [] ys = (ys = [])"
| "py_eq_list (x # xs) ys =
     (case ys of
        [] \<Rightarrow> False
      | y # ys' \<Rightarrow> (same_object x y \<or> py_eq x y) \<and> py_eq_list xs ys')"
| "py_eq_items [] ys = True"
| "py_eq_items ((k, v) # xs) ys =
     ((case map_of ys k of None \<Rightarrow> False | Some w \<Rightarrow> same_object v w \<or> py_eq v w)
      \<and> py_eq_items xs ys)"

text \<open>\<open>a != b\<close>.\<close>

definition py_ne :: "pyval \<Rightarrow> pyval \<Rightarrow> bool" where
  "py_ne a b = (\<not> py_eq a b)"

fun starts_with :: "string \<Rightarrow> string \<Rightarrow> bool" where
  "starts_with s [] = True"
| "starts_with [] (k # ks) = False"
| "starts_with (c # s) (k # ks) = (c = k \<and> starts_with s ks)"

text \<open>\<open>key in s\<close> for two strings: \<open>key\<close> occurs in \<open>s\<close>.\<close>

fun occurs_in :: "string \<Rightarrow> string \<Rightarrow> bool" where
  "occurs_in key [] = (key = [])"
| "occurs_in key (c # s) = (starts_with (c # s) key \<or> occurs_in key s)"

text \<open>
  \<open>key in obj\<close> for a string \<open>key\<close>: a key of a dict, an item of a list, a part of a
  string; \<open>None\<close> and numbers are not iterable.
\<close>

fun py_contains :: "pyval \<Rightarrow> string \<Rightarrow> py_error + bool" where
  "py_contains (PDict kvs) key = Inr (key \<in> set (map fst kvs))"
| "py_contains (PList xs) key = Inr (list_ex (\<lambda>x. py_eq x (PStr key)) xs)"
| "py_contains (PStr s) key = Inr (occurs_in key s)"
| "py_contains PNone key = Inl TypeError"
| "py_contains (PBool b) key = Inl TypeError"
| "py_contains (PInt i) key = Inl TypeError"
| "py_contains (PFloat f) key = Inl TypeError"

text \<open>\<open>obj[key]\<close> for a string \<open>key\<close>: only a dict takes a string as index.\<close>

fun py_getitem :: "pyval \<Rightarrow> string \<Rightarrow> py_error + pyval" where
  "py_getitem (PDict kvs) key = (case map_of kvs key of None \<Rightarrow> Inl KeyError | Some v \<Rightarrow> Inr v)"
| "py_getitem PNone key = Inl TypeError"
| "py_getitem (PBool b) key = Inl TypeError"
| "py_getitem (PInt i) key = Inl TypeError"
| "py_getitem (PFloat f) key = Inl TypeError"
| "py_getitem (PStr s) key = Inl TypeError"
| "py_getitem (PList xs) key = Inl TypeError"

text \<open>\<open>obj.get(key)\<close>: only a dict has the method.\<close>

fun py_get :: "pyval \<Rightarrow> string \<Rightarrow> py_error + pyval" where
  "py_get (PDict kvs) key = Inr (case map_of kvs key of None \<Rightarrow> PNone | Some v \<Rightarrow> v)"
| "py_get PNone key = Inl AttributeError"
| "py_get (PBool b) key = Inl AttributeError"
| "py_get (PInt i) key = Inl AttributeError"
| "py_get (PFloat f) key = Inl AttributeError"
| "py_get (PStr s) key = Inl AttributeError"
| "py_get (PList xs) key = Inl AttributeError"

text \<open>\<open>datetime.strptime(v, format)\<close>: \<open>TypeError\<close> unless \<open>v\<close> is a \<open>str\<close>.\<close>

fun py_strptime :: "pyval \<Rightarrow> string \<Rightarrow> py_error + datetime" where
  "py_strptime (PStr s) format = strptime s format"
| "py_strptime PNone format = Inl TypeError"
| "py_strptime (PBool b) format = Inl TypeError"
| "py_strptime (PInt i) format = Inl TypeError"
| "py_strptime (PFloat f) format = Inl TypeError"
| "py_strptime (PList xs) format = Inl TypeError"
| "py_strptime (PDict kvs) format = Inl TypeError"

section \<open>The query engine (\<open>query_engine.py\<close>)\<close>

text \<open>\<open>QueryEngine.datetime_format\<close>.\<close>

definition query_datetime_format :: string where
  "query_datetime_format = ''%Y-%m-%d %H:%M''"

definition exact_match_fields :: "string list" where
  "exact_match_fields = [''flight_id'', ''origin'', ''destination'']"

text \<open>
  The parts of \<open>_flight_matches_query\<close> answer \<open>False\<close> for \<open>return False\<close> and \<open>True\<close>
  when the function goes on to its next statement.
\<close>

fun exact_loop :: "pyval \<Rightarrow> pyval \<Rightarrow> string list \<Rightarrow> py_error + bool" where
  "exact_loop flight query [] = Inr True"
| "exact_loop flight query (field # rest) =
     py_bind (py_contains query field) (\<lambda>present.
       if present then
         py_bind (py_get flight field) (\<lambda>a.
         py_bind (py_getitem query field) (\<lambda>b.
           if py_ne a b then Inr False else exact_loop flight query rest))
       else exact_loop flight query rest)"

definition departure_block :: "pyval \<Rightarrow> pyval \<Rightarrow> py_error + bool" where
  "departure_block flight query =
     py_bind (py_contains query ''departure_datetime'') (\<lambda>present.
       if present then
         try_except
           (py_bind (py_getitem query ''departure_datetime'') (\<lambda>qv.
            py_bind (py_strptime qv query_datetime_format) (\<lambda>query_dt.
            py_bind (py_getitem flight ''departure_datetime'') (\<lambda>fv.
            py_bind (py_strptime fv query_datetime_format) (\<lambda>flight_dt.
              Inr (\<not> dt_less flight_dt query_dt))))))
           [ValueError, KeyError]
           False
       else Inr True)"

definition arrival_block :: "pyval \<Rightarrow> pyval \<Rightarrow> py_error + bool" where
  "arrival_block flight query =
     py_bind (py_contains query ''arrival_datetime'') (\<lambda>present.
       if present then
         try_except
           (py_bind (py_getitem query ''arrival_datetime'') (\<lambda>qv.
            py_bind (py_strptime qv query_datetime_format) (\<lambda>query_dt.
            py_bind (py_getitem flight ''arrival_datetime'') (\<lambda>fv.
            py_bind (py_strptime fv query_datetime_format) (\<lambda>flight_dt.
              Inr (\<not> dt_less query_dt flight_dt))))))
           [ValueError, KeyError]
           False
       else Inr True)"

definition price_block :: "pyval \<Rightarrow> pyval \<Rightarrow> py_error + bool" where
  "price_block flight query =
     py_bind (py_contains query ''price'') (\<lambda>present.
       if present then
         try_except
           (py_bind (py_getitem query ''price'') (\<lambda>qv.
            py_bind (py_float qv) (\<lambda>query_price.
            py_bind (py_getitem flight ''price'') (\<lambda>fv.
            py_bind (py_float fv) (\<lambda>flight_price.
              Inr (\<not> float_less query_price flight_price))))))
           [ValueError, KeyError]
           False
       else Inr True)"

text \<open>\<open>QueryEngine._flight_matches_query\<close>.\<close>

definition flight_matches_query :: "pyval \<Rightarrow> pyval \<Rightarrow> py_error + bool" where
  "flight_matches_query flight query =
     py_bind (exact_loop flight query exact_match_fields) (\<lambda>go.
       if \<not> go then Inr False
       else py_bind (departure_block flight query) (\<lambda>go.
         if \<not> go then Inr False
         else py_bind (arrival_block flight query) (\<lambda>go.
           if \<not> go then Inr False
           else py_bind (price_block flight query) (\<lambda>go.
             if \<not> go then Inr False else Inr True))))"

text \<open>\<open>QueryEngine.execute_query\<close>; \<open>flights\<close> is \<open>self.flights\<close>.\<close>

fun execute_loop :: "pyval list \<Rightarrow> pyval \<Rightarrow> pyval list \<Rightarrow> py_error + pyval list" where
  "execute_loop [] query matches = Inr matches"
| "execute_loop (flight # rest) query matches =
     py_bind (flight_matches_query flight query) (\<lambda>m.
       execute_loop rest query (if m then matches @ [flight] else matches))"

definition execute_query :: "pyval list \<Rightarrow> pyval \<Rightarrow> py_error + pyval list" where
  "execute_query flights query = execute_loop flights query []"

text \<open>
  \<open>QueryEngine.execute_queries_from_file\<close> after \<open>json.load\<close>: \<open>queries\<close> is the decoded
  content of the query file. The \<open>ValueError\<close> raised here is the format error.
\<close>

fun results_loop :: "pyval list \<Rightarrow> pyval list \<Rightarrow> pyval list \<Rightarrow> py_error + pyval list" where
  "results_loop flights [] results = Inr results"
| "results_loop flights (query # rest) results =
     py_bind (execute_query flights query) (\<lambda>matches.
       results_loop flights rest
         (results @ [PDict [(''query'', query), (''matches'', PList matches)]]))"

definition execute_queries_from_file :: "pyval list \<Rightarrow> pyval \<Rightarrow> py_error + pyval list" where
  "execute_queries_from_file flights queries =
     py_bind
       (case queries of
          PDict kvs \<Rightarrow> Inr [queries]
        | PList qs \<Rightarrow> Inr qs
        | _ \<Rightarrow> Inl ValueError)
       (\<lambda>queries. results_loop flights queries [])"

section \<open>Example records and queries\<close>

text \<open>A row that lacks the price and has an empty destination.\<close>

definition raw_no_price :: raw_record where
  "raw_no_price =
     map_of [(''flight_id'', ''AB12''), (''origin'', ''LHR''), (''destination'', ''''),
             (''departure_datetime'', ''01/15/2025 10:00''),
             (''arrival_datetime'', ''01/15/2025 18:00'')]"

section \<open>The validation rules as a list of checks\<close>

text \<open>
  Section 4.1 of the specification, steps 2 to 5, for a record with all six fields: each
  check looks at its own field (the ordering check at the two datetimes) and answers its
  reasons, none or one; the accumulated list is their concatenation in this fixed order.
\<close>

definition flight_id_reasons :: "string \<Rightarrow> string list" where
  "flight_id_reasons v =
     (if validate_flight_id v then []
      else [''invalid flight_id (must be 2-8 alphanumeric characters)''])"

definition airport_reasons :: "string \<Rightarrow> string \<Rightarrow> string list" where
  "airport_reasons field v =
     (if validate_airport_code v then [] else [''invalid '' @ field @ '' code''])"

definition datetime_reasons :: "string \<Rightarrow> string \<Rightarrow> string list" where
  "datetime_reasons reason v =
     (case strptime v datetime_format of Inr dt \<Rightarrow> [] | Inl e \<Rightarrow> [reason])"

definition order_reasons :: "string \<Rightarrow> string \<Rightarrow> string list" where
  "order_reasons dep arr =
     (case (strptime dep datetime_format, strptime arr datetime_format) of
        (Inr d, Inr a) \<Rightarrow> if dt_le a d then [''arrival before departure''] else []
      | _ \<Rightarrow> [])"

definition price_reasons :: "string \<Rightarrow> string list" where
  "price_reasons p =
     (case float_of_str p of
        Inl e \<Rightarrow> [''invalid price format'']
      | Inr x \<Rightarrow> if float_le x (Finite 0) then [''negative price value''] else [])"

definition accumulated_reasons ::
  "string \<Rightarrow> string \<Rightarrow> string \<Rightarrow> string \<Rightarrow> string \<Rightarrow> string \<Rightarrow> string list" where
  "accumulated_reasons fid orig dest dep arr p =
     flight_id_reasons fid @ airport_reasons ''origin'' orig
       @ airport_reasons ''destination'' dest
       @ datetime_reasons ''invalid departure datetime'' dep
       @ datetime_reasons ''invalid arrival datetime'' arr
       @ order_reasons dep arr @ price_reasons p"

text \<open>All six required fields are present and not empty, with these values.\<close>

definition has_fields ::
  "raw_record \<Rightarrow> string \<Rightarrow> string \<Rightarrow> string \<Rightarrow> string \<Rightarrow> string \<Rightarrow> string \<Rightarrow> bool" where
  "has_fields flight_data fid orig dest dep arr p =
     (flight_data ''flight_id'' = Some fid \<and> flight_data ''origin'' = Some orig
      \<and> flight_data ''destination'' = Some dest
      \<and> flight_data ''departure_datetime'' = Some dep
      \<and> flight_data ''arrival_datetime'' = Some arr
      \<and> flight_data ''price'' = Some p
      \<and> [] \<notin> set [fid, orig, dest, dep, arr, p])"

text \<open>The example of section 8 of the specification, as the CSV row it comes from.\<close>

definition raw_valid :: raw_record where
  "raw_valid =
     map_of [(''flight_id'', ''AB12''), (''origin'', ''LHR''), (''destination'', ''JFK''),
             (''departure_datetime'', ''01/15/2025 10:00''),
             (''arrival_datetime'', ''01/15/2025 18:00''), (''price'', ''450.0'')]"

text \<open>A row that breaks four rules at once.\<close>

definition raw_bad :: raw_record where
  "raw_bad =
     map_of [(''flight_id'', ''A''), (''origin'', ''lhr''), (''destination'', ''JFK''),
             (''departure_datetime'', ''01/15/2025 10:00''),
             (''arrival_datetime'', ''01/15/2025 09:00''), (''price'', ''abc'')]"

text \<open>A row whose arrival is before its departure.\<close>

definition raw_late :: raw_record where
  "raw_late =
     map_of [(''flight_id'', ''AB12''), (''origin'', ''LHR''), (''destination'', ''JFK''),
             (''departure_datetime'', ''01/15/2025 10:00''),
             (''arrival_datetime'', ''01/15/2025 09:00''), (''price'', ''450.0'')]"

text \<open>The same row without its price.\<close>

definition raw_late_no_price :: raw_record where
  "raw_late_no_price =
     map_of [(''flight_id'', ''AB12''), (''origin'', ''LHR''), (''destination'', ''JFK''),
             (''departure_datetime'', ''01/15/2025 10:00''),
             (''arrival_datetime'', ''01/15/2025 09:00'')]"

text \<open>A row whose price is the text \<open>nan\<close>.\<close>

definition raw_nan_price :: raw_record where
  "raw_nan_price =
     map_of [(''flight_id'', ''AB12''), (''origin'', ''LHR''), (''destination'', ''JFK''),
             (''departure_datetime'', ''01/15/2025 10:00''),
             (''arrival_datetime'', ''01/15/2025 18:00''), (''price'', ''nan'')]"

text \<open>The value a \<open>try\<close> block around \<open>strptime\<close> leaves in its variable.\<close>

definition parsed :: "string \<Rightarrow> datetime option" where
  "parsed v = (case strptime v datetime_format of Inr dt \<Rightarrow> Some dt | Inl e \<Rightarrow> None)"

section \<open>Auxiliary notions for the query engine\<close>

text \<open>The first exception in a list of results, if there is one.\<close>

fun first_error :: "(py_error + 'a) list \<Rightarrow> py_error option" where
  "first_error [] = None"
| "first_error (Inl e # rs) = Some e"
| "first_error (Inr x # rs) = first_error rs"

text \<open>The keys a query is read for.\<close>

definition known_keys :: "string list" where
  "known_keys = exact_match_fields @ [''departure_datetime'', ''arrival_datetime'', ''price'']"

text \<open>The accepted record of the example of section 8 of the specification.\<close>

definition flight_ab12 :: pyval where
  "flight_ab12 =
     PDict [(''flight_id'', PStr ''AB12''), (''origin'', PStr ''LHR''),
            (''destination'', PStr ''JFK''), (''departure_datetime'', PStr ''01/15/2025 10:00''),
            (''arrival_datetime'', PStr ''01/15/2025 18:00''), (''price'', PFloat (Finite 450))]"

text \<open>A record with another origin and a higher price.\<close>

definition flight_cd34 :: pyval where
  "flight_cd34 =
     PDict [(''flight_id'', PStr ''CD34''), (''origin'', PStr ''FRA''),
            (''destination'', PStr ''JFK''), (''departure_datetime'', PStr ''01/16/2025 08:00''),
            (''arrival_datetime'', PStr ''01/16/2025 17:00''), (''price'', PFloat (Finite 700))]"

text \<open>\<open>isinstance(v, dict)\<close> and \<open>isinstance(v, list)\<close>.\<close>

definition is_dict :: "pyval \<Rightarrow> bool" where
  "is_dict v = (case v of PDict kvs \<Rightarrow> True | _ \<Rightarrow> False)"

definition is_list :: "pyval \<Rightarrow> bool" where
  "is_list v = (case v of PList xs \<Rightarrow> True | _ \<Rightarrow> False)"

text \<open>The entry of the response for one query.\<close>

definition query_result :: "pyval \<Rightarrow> pyval list \<Rightarrow> pyval" where
  "query_result query matches = PDict [(''query'', query), (''matches'', PList matches)]"

text \<open>The first query of the example of section 8, and a query file that is no query.\<close>

definition query_lhr_500 :: pyval where
  "query_lhr_500 = PDict [(''origin'', PStr ''LHR''), (''price'', PInt 500)]"

text \<open>
  Values of the kinds the matcher expects: the datetime fields hold strings, and \<open>float\<close>
  takes the price or rejects it with \<open>ValueError\<close>.
\<close>

definition is_str :: "pyval \<Rightarrow> bool" where
  "is_str v = (case v of PStr s \<Rightarrow> True | _ \<Rightarrow> False)"

definition well_typed :: "(string \<times> pyval) list \<Rightarrow> bool" where
  "well_typed kvs =
     (list_all (\<lambda>key. case map_of kvs key of None \<Rightarrow> True | Some v \<Rightarrow> is_str v)
        [''departure_datetime'', ''arrival_datetime'']
      \<and> (case map_of kvs ''price'' of
            None \<Rightarrow> True
          | Some v \<Rightarrow> py_float v \<noteq> Inl TypeError \<and> py_float v \<noteq> Inl OverflowError))"

text \<open>A record without a flight id, and the query for the flight id \<open>null\<close>.\<close>

definition flight_no_id :: pyval where
  "flight_no_id =
     PDict [(''origin'', PStr ''LHR''), (''destination'', PStr ''JFK''),
            (''departure_datetime'', PStr ''01/15/2025 10:00''),
            (''arrival_datetime'', PStr ''01/15/2025 18:00''), (''price'', PFloat (Finite 450))]"

definition query_id_null :: pyval where
  "query_id_null = PDict [(''flight_id'', PNone)]"

text \<open>A record whose datetimes are written in the query format, and one whose departure is a number.\<close>

definition flight_iso :: pyval where
  "flight_iso =
     PDict [(''flight_id'', PStr ''AB12''), (''origin'', PStr ''LHR''),
            (''destination'', PStr ''JFK''), (''departure_datetime'', PStr ''2025-01-15 10:00''),
            (''arrival_datetime'', PStr ''2025-01-15 18:00''), (''price'', PFloat (Finite 450))]"

definition flight_numeric_departure :: pyval where
  "flight_numeric_departure =
     PDict [(''flight_id'', PStr ''AB12''), (''departure_datetime'', PInt 20250115)]"

text \<open>The datetime values of a query object, where present, are strings.\<close>

definition datetime_values_are_strings :: "(string \<times> pyval) list \<Rightarrow> bool" where
  "datetime_values_are_strings kvs =
     list_all (\<lambda>key. case map_of kvs key of None \<Rightarrow> True | Some v \<Rightarrow> is_str v)
       [''departure_datetime'', ''arrival_datetime'']"

section \<open>Facts about the library functions\<close>

lemma strptime_error: "strptime s f = Inl e \<Longrightarrow> e = ValueError"
  by (auto simp: strptime_def build_datetime_def Let_def
      split: option.splits list.splits if_splits prod.splits)

lemma parse_float_literal_error: "parse_float_literal s = Inl e \<Longrightarrow> e = ValueError"
  by (auto simp: parse_float_literal_def Let_def split: option.splits if_splits prod.splits)

lemma float_of_str_error: "float_of_str s = Inl e \<Longrightarrow> e = ValueError"
  by (auto simp: float_of_str_def float_from_string_inner_def Let_def
      dest: parse_float_literal_error split: option.splits if_splits)

section \<open>The validator\<close>

lemma missing_loop_eq:
  "missing_loop flight_data fs errors =
     errors @ map (\<lambda>field. ''missing '' @ field @ '' field'')
                  (filter (field_missing flight_data) fs)"
  by (induction fs arbitrary: errors) simp_all

text \<open>
  C5. When a required field is absent or empty, \<open>validate_flight\<close> fails and its reasons
  are exactly the \<open>missing <field> field\<close> entries of the missing fields, one each, in the
  order of the required fields; no other check adds a reason, and the row is rejected with
  these reasons.
\<close>

theorem missing_fields_short_circuit:
  assumes "\<exists>field \<in> set required_fields. field_missing flight_data field"
  shows "validate_flight flight_data =
           Inr (False, map (\<lambda>field. ''missing '' @ field @ '' field'')
                           (filter (field_missing flight_data) required_fields))
         \<and> validate_row flight_data =
           Inr (Rejected (map (\<lambda>field. ''missing '' @ field @ '' field'')
                              (filter (field_missing flight_data) required_fields)))"
proof -
  have "filter (field_missing flight_data) required_fields \<noteq> []"
    using assms by (simp add: filter_empty_conv)
  then have "validate_flight flight_data =
      Inr (False, map (\<lambda>field. ''missing '' @ field @ '' field'')
                      (filter (field_missing flight_data) required_fields))"
    by (simp add: validate_flight_def missing_loop_eq)
  then show ?thesis
    by (simp add: validate_row_def py_bind_def)
qed

theorem missing_fields_short_circuit_witness:
  "(\<exists>field \<in> set required_fields. field_missing raw_no_price field)
   \<and> validate_flight raw_no_price =
       Inr (False, [''missing destination field'', ''missing price field''])
   \<and> validate_row raw_no_price =
       Inr (Rejected [''missing destination field'', ''missing price field''])"
  using missing_fields_short_circuit [of raw_no_price]
  by (simp add: required_fields_def field_missing_def raw_no_price_def)

lemma has_fields_not_missing:
  assumes "has_fields flight_data fid orig dest dep arr p"
  shows "missing_loop flight_data required_fields [] = []"
  using assms
  by (auto simp: has_fields_def missing_loop_eq required_fields_def field_missing_def)

lemma check_flight_id_eq:
  "flight_data ''flight_id'' = Some v \<Longrightarrow>
   check_flight_id flight_data errors = Inr (errors @ flight_id_reasons v)"
  by (simp add: check_flight_id_def getitem_def py_bind_def flight_id_reasons_def)

lemma check_airport_eq:
  "flight_data field = Some v \<Longrightarrow>
   check_airport flight_data field errors = Inr (errors @ airport_reasons field v)"
  by (simp add: check_airport_def getitem_def py_bind_def airport_reasons_def)

lemma try_datetime_eq:
  "flight_data field = Some v \<Longrightarrow>
   try_datetime flight_data field reason errors =
     Inr (parsed v, errors @ datetime_reasons reason v)"
  by (auto simp: try_datetime_def getitem_def py_bind_def try_except_def parsed_def
      datetime_reasons_def dest: strptime_error split: sum.splits)

lemma check_order_eq:
  "check_order (parsed dep) (parsed arr) errors = errors @ order_reasons dep arr"
  by (simp add: check_order_def parsed_def order_reasons_def split: sum.splits)

lemma check_price_eq:
  "flight_data ''price'' = Some p \<Longrightarrow>
   check_price flight_data errors = Inr (errors @ price_reasons p)"
  by (auto simp: check_price_def getitem_def py_bind_def try_except_def price_reasons_def
      dest: float_of_str_error split: sum.splits)

lemma validate_flight_present:
  assumes "has_fields flight_data fid orig dest dep arr p"
  shows "validate_flight flight_data =
           Inr (accumulated_reasons fid orig dest dep arr p = [],
                accumulated_reasons fid orig dest dep arr p)"
proof -
  have f: "flight_data ''flight_id'' = Some fid" "flight_data ''origin'' = Some orig"
    "flight_data ''destination'' = Some dest" "flight_data ''departure_datetime'' = Some dep"
    "flight_data ''arrival_datetime'' = Some arr" "flight_data ''price'' = Some p"
    using assms by (simp_all add: has_fields_def)
  show ?thesis
    unfolding validate_flight_def has_fields_not_missing [OF assms] Let_def
    by (simp add: check_flight_id_eq [of flight_data fid, OF f(1)]
        check_airport_eq [of flight_data _ orig, OF f(2)]
        check_airport_eq [of flight_data _ dest, OF f(3)]
        try_datetime_eq [of flight_data _ dep, OF f(4)]
        try_datetime_eq [of flight_data _ arr, OF f(5)]
        check_order_eq check_price_eq [of flight_data p, OF f(6)]
        py_bind_def accumulated_reasons_def)
qed

lemma price_parses_when_no_reason:
  "price_reasons p = [] \<Longrightarrow> \<exists>price. float_of_str p = Inr price \<and> \<not> float_le price (Finite 0)"
  by (auto simp: price_reasons_def split: sum.splits if_splits)

lemma convert_present:
  assumes "has_fields flight_data fid orig dest dep arr p" "float_of_str p = Inr price"
  shows "convert_to_typed_flight flight_data =
     Inr (PDict [(''flight_id'', PStr fid), (''origin'', PStr orig),
                 (''destination'', PStr dest), (''departure_datetime'', PStr dep),
                 (''arrival_datetime'', PStr arr), (''price'', PFloat price)])"
  using assms by (simp add: has_fields_def convert_to_typed_flight_def getitem_def py_bind_def)

text \<open>
  C6. For a record with all six required fields present and not empty, every check of
  steps 2 to 5 runs and the reasons of \<open>validate_flight\<close> are the reasons of the checks
  in the fixed order (flight_id, origin, destination, departure, arrival, ordering, price);
  the row is accepted exactly when this list is empty, and then the typed record keeps the
  five strings and holds the price as the float that \<open>float\<close> reads from its text;
  otherwise the row is rejected with the list.
\<close>

theorem checks_accumulate:
  assumes "has_fields flight_data fid orig dest dep arr p"
  shows "validate_flight flight_data =
           Inr (accumulated_reasons fid orig dest dep arr p = [],
                accumulated_reasons fid orig dest dep arr p)
         \<and> (accumulated_reasons fid orig dest dep arr p \<noteq> [] \<longrightarrow>
              validate_row flight_data = Inr (Rejected (accumulated_reasons fid orig dest dep arr p)))
         \<and> (accumulated_reasons fid orig dest dep arr p = [] \<longrightarrow>
              (\<exists>price. float_of_str p = Inr price
                 \<and> validate_row flight_data =
                     Inr (Accepted (PDict [(''flight_id'', PStr fid), (''origin'', PStr orig),
                            (''destination'', PStr dest), (''departure_datetime'', PStr dep),
                            (''arrival_datetime'', PStr arr), (''price'', PFloat price)]))))"
proof -
  note v = validate_flight_present [OF assms]
  have rej: "accumulated_reasons fid orig dest dep arr p \<noteq> [] \<Longrightarrow>
      validate_row flight_data = Inr (Rejected (accumulated_reasons fid orig dest dep arr p))"
    by (simp add: validate_row_def v py_bind_def)
  have acc: "\<exists>price. float_of_str p = Inr price
                 \<and> validate_row flight_data =
                     Inr (Accepted (PDict [(''flight_id'', PStr fid), (''origin'', PStr orig),
                            (''destination'', PStr dest), (''departure_datetime'', PStr dep),
                            (''arrival_datetime'', PStr arr), (''price'', PFloat price)]))"
    if e: "accumulated_reasons fid orig dest dep arr p = []"
  proof -
    from e have "price_reasons p = []" by (simp add: accumulated_reasons_def)
    then obtain price where p: "float_of_str p = Inr price"
      using price_parses_when_no_reason by blast
    have "validate_row flight_data =
        Inr (Accepted (PDict [(''flight_id'', PStr fid), (''origin'', PStr orig),
                            (''destination'', PStr dest), (''departure_datetime'', PStr dep),
                            (''arrival_datetime'', PStr arr), (''price'', PFloat price)]))"
      by (simp add: validate_row_def v e py_bind_def convert_present [OF assms p])
    with p show ?thesis by blast
  qed
  from v rej acc show ?thesis by blast
qed

subsection \<open>Evaluations\<close>

lemma strptime_1000: "strptime ''01/15/2025 10:00'' datetime_format =
    Inr \<lparr>year = 2025, month = 1, day = 15, hour = 10, minute = 0\<rparr>"
  by code_simp
lemma strptime_1800: "strptime ''01/15/2025 18:00'' datetime_format =
    Inr \<lparr>year = 2025, month = 1, day = 15, hour = 18, minute = 0\<rparr>"
  by code_simp
lemma strptime_0900: "strptime ''01/15/2025 09:00'' datetime_format =
    Inr \<lparr>year = 2025, month = 1, day = 15, hour = 9, minute = 0\<rparr>"
  by code_simp
lemma float_450: "float_of_str ''450.0'' = Inr (Finite 450)"
  by code_simp
lemma float_nan: "float_of_str ''nan'' = Inr NaN"
  by code_simp
lemma float_abc: "float_of_str ''abc'' = Inl ValueError"
  by code_simp
lemma ids: "validate_flight_id ''AB12''" "\<not> validate_flight_id ''A''"
  by code_simp+
lemma airports: "validate_airport_code ''LHR''" "validate_airport_code ''JFK''" "\<not> validate_airport_code ''lhr''"
  by code_simp+

lemmas evals = strptime_1000 strptime_1800 strptime_0900 float_450 float_nan float_abc ids airports

lemmas reasons_defs = accumulated_reasons_def flight_id_reasons_def airport_reasons_def
  datetime_reasons_def order_reasons_def price_reasons_def

lemma reasons_valid: "accumulated_reasons ''AB12'' ''LHR'' ''JFK'' ''01/15/2025 10:00'' ''01/15/2025 18:00'' ''450.0'' = []"
  by (simp add: reasons_defs evals dt_le_def dt_key_def float_le_def float_eq_def)

lemma reasons_bad: "accumulated_reasons ''A'' ''lhr'' ''JFK'' ''01/15/2025 10:00'' ''01/15/2025 09:00'' ''abc'' =
  [''invalid flight_id (must be 2-8 alphanumeric characters)'', ''invalid origin code'',
   ''arrival before departure'', ''invalid price format'']"
  by (simp add: reasons_defs evals dt_le_def dt_key_def float_le_def float_eq_def)

lemma reasons_nan: "accumulated_reasons ''AB12'' ''LHR'' ''JFK'' ''01/15/2025 10:00'' ''01/15/2025 18:00'' ''nan'' = []"
  by (simp add: reasons_defs evals dt_le_def dt_key_def float_le_def float_eq_def)

theorem checks_accumulate_witness:
  "has_fields raw_valid ''AB12'' ''LHR'' ''JFK'' ''01/15/2025 10:00'' ''01/15/2025 18:00'' ''450.0''
   \<and> validate_flight raw_valid = Inr (True, [])
   \<and> validate_row raw_valid =
       Inr (Accepted (PDict [(''flight_id'', PStr ''AB12''), (''origin'', PStr ''LHR''),
              (''destination'', PStr ''JFK''), (''departure_datetime'', PStr ''01/15/2025 10:00''),
              (''arrival_datetime'', PStr ''01/15/2025 18:00''), (''price'', PFloat (Finite 450))]))
   \<and> has_fields raw_bad ''A'' ''lhr'' ''JFK'' ''01/15/2025 10:00'' ''01/15/2025 09:00'' ''abc''
   \<and> validate_row raw_bad =
       Inr (Rejected [''invalid flight_id (must be 2-8 alphanumeric characters)'',
              ''invalid origin code'', ''arrival before departure'', ''invalid price format''])"
proof -
  have h1: "has_fields raw_valid ''AB12'' ''LHR'' ''JFK'' ''01/15/2025 10:00'' ''01/15/2025 18:00'' ''450.0''"
    by (simp add: has_fields_def raw_valid_def)
  have h2: "has_fields raw_bad ''A'' ''lhr'' ''JFK'' ''01/15/2025 10:00'' ''01/15/2025 09:00'' ''abc''"
    by (simp add: has_fields_def raw_bad_def)
  show ?thesis
    using h1 h2 checks_accumulate [OF h1] checks_accumulate [OF h2]
    by (simp add: reasons_valid reasons_bad float_450)
qed

lemma order_reasons_mem:
  "''arrival before departure'' \<in> set (order_reasons dep arr) \<longleftrightarrow>
     (\<exists>d a. strptime dep datetime_format = Inr d \<and> strptime arr datetime_format = Inr a \<and> dt_le a d)"
  by (cases "strptime dep datetime_format"; cases "strptime arr datetime_format")
     (simp_all add: order_reasons_def)

lemma datetime_reasons_mem:
  "r \<in> set (datetime_reasons reason v) \<longleftrightarrow>
     r = reason \<and> (\<exists>e. strptime v datetime_format = Inl e)"
  by (cases "strptime v datetime_format") (auto simp: datetime_reasons_def)

lemma other_reasons_mem:
  "set (flight_id_reasons v) \<subseteq> {''invalid flight_id (must be 2-8 alphanumeric characters)''}"
  "set (airport_reasons field v) \<subseteq> {''invalid '' @ field @ '' code''}"
  "set (order_reasons dep arr) \<subseteq> {''arrival before departure''}"
  "set (price_reasons p) \<subseteq> {''invalid price format'', ''negative price value''}"
  by (auto simp: flight_id_reasons_def airport_reasons_def order_reasons_def
      price_reasons_def split: sum.splits if_splits)

lemma order_reason_iff:
  "''arrival before departure'' \<in> set (accumulated_reasons fid orig dest dep arr p) \<longleftrightarrow>
     (\<exists>d a. strptime dep datetime_format = Inr d \<and> strptime arr datetime_format = Inr a \<and> dt_le a d)"
  using other_reasons_mem(1) [of fid] other_reasons_mem(2) [of "''origin''" orig]
    other_reasons_mem(2) [of "''destination''" dest] other_reasons_mem(4) [of p]
  by (auto simp: accumulated_reasons_def order_reasons_mem datetime_reasons_mem)

lemma departure_reason_iff:
  "''invalid departure datetime'' \<in> set (accumulated_reasons fid orig dest dep arr p) \<longleftrightarrow>
     (\<exists>e. strptime dep datetime_format = Inl e)"
  using other_reasons_mem(1) [of fid] other_reasons_mem(2) [of "''origin''" orig]
    other_reasons_mem(2) [of "''destination''" dest] other_reasons_mem(4) [of p]
    other_reasons_mem(3) [of dep arr]
  by (auto simp: accumulated_reasons_def datetime_reasons_mem)

lemma arrival_reason_iff:
  "''invalid arrival datetime'' \<in> set (accumulated_reasons fid orig dest dep arr p) \<longleftrightarrow>
     (\<exists>e. strptime arr datetime_format = Inl e)"
  using other_reasons_mem(1) [of fid] other_reasons_mem(2) [of "''origin''" orig]
    other_reasons_mem(2) [of "''destination''" dest] other_reasons_mem(4) [of p]
    other_reasons_mem(3) [of dep arr]
  by (auto simp: accumulated_reasons_def datetime_reasons_mem)

text \<open>
  C7, as amended: for a record with all six required fields present and not empty, the
  reasons of \<open>validate_flight\<close> contain "arrival before departure" exactly when both
  datetimes parse under the storage format and the arrival is not later than the departure,
  and contain "invalid departure datetime" ("invalid arrival datetime") exactly when the
  departure (the arrival) does not parse. So a pair that parses never gets a datetime-format
  reason, and a datetime that does not parse never gets the ordering reason.
\<close>

theorem arrival_order_reason:
  assumes "has_fields flight_data fid orig dest dep arr p"
  shows "\<exists>ok reasons. validate_flight flight_data = Inr (ok, reasons)
     \<and> (''arrival before departure'' \<in> set reasons \<longleftrightarrow>
          (\<exists>d a. strptime dep datetime_format = Inr d \<and> strptime arr datetime_format = Inr a
                 \<and> dt_le a d))
     \<and> (''invalid departure datetime'' \<in> set reasons \<longleftrightarrow>
          (\<exists>e. strptime dep datetime_format = Inl e))
     \<and> (''invalid arrival datetime'' \<in> set reasons \<longleftrightarrow>
          (\<exists>e. strptime arr datetime_format = Inl e))"
proof (intro exI conjI)
  show "validate_flight flight_data =
      Inr (accumulated_reasons fid orig dest dep arr p = [],
           accumulated_reasons fid orig dest dep arr p)"
    by (rule validate_flight_present [OF assms])
qed (rule order_reason_iff departure_reason_iff arrival_reason_iff)+

theorem arrival_order_reason_witness:
  "has_fields raw_late ''AB12'' ''LHR'' ''JFK'' ''01/15/2025 10:00'' ''01/15/2025 09:00'' ''450.0''
   \<and> strptime ''01/15/2025 10:00'' datetime_format =
         Inr \<lparr>year = 2025, month = 1, day = 15, hour = 10, minute = 0\<rparr>
   \<and> strptime ''01/15/2025 09:00'' datetime_format =
         Inr \<lparr>year = 2025, month = 1, day = 15, hour = 9, minute = 0\<rparr>
   \<and> (\<exists>ok reasons. validate_flight raw_late = Inr (ok, reasons)
         \<and> ''arrival before departure'' \<in> set reasons
         \<and> ''invalid departure datetime'' \<notin> set reasons
         \<and> ''invalid arrival datetime'' \<notin> set reasons)"
proof -
  have h: "has_fields raw_late ''AB12'' ''LHR'' ''JFK'' ''01/15/2025 10:00'' ''01/15/2025 09:00'' ''450.0''"
    by (simp add: has_fields_def raw_late_def)
  have le: "dt_le \<lparr>year = 2025, month = 1, day = 15, hour = 9, minute = 0\<rparr>
                  \<lparr>year = 2025, month = 1, day = 15, hour = 10, minute = 0\<rparr>"
    by (simp add: dt_le_def dt_key_def)
  show ?thesis
    using h le arrival_order_reason [OF h] by (simp add: strptime_1000 strptime_0900)
qed

text \<open>
  C7 as stated fails for a record that lacks another field: both datetimes parse, the
  arrival is before the departure, and the only reason is the missing price.
\<close>

theorem arrival_order_counterexample:
  "raw_late_no_price ''departure_datetime'' = Some ''01/15/2025 10:00''
   \<and> raw_late_no_price ''arrival_datetime'' = Some ''01/15/2025 09:00''
   \<and> strptime ''01/15/2025 10:00'' datetime_format =
         Inr \<lparr>year = 2025, month = 1, day = 15, hour = 10, minute = 0\<rparr>
   \<and> strptime ''01/15/2025 09:00'' datetime_format =
         Inr \<lparr>year = 2025, month = 1, day = 15, hour = 9, minute = 0\<rparr>
   \<and> dt_le \<lparr>year = 2025, month = 1, day = 15, hour = 9, minute = 0\<rparr>
             \<lparr>year = 2025, month = 1, day = 15, hour = 10, minute = 0\<rparr>
   \<and> validate_flight raw_late_no_price = Inr (False, [''missing price field''])
   \<and> ''arrival before departure'' \<notin> set [''missing price field'']"
  by (simp add: strptime_1000 strptime_0900 dt_le_def dt_key_def validate_flight_def
      missing_loop_eq required_fields_def field_missing_def raw_late_no_price_def)

text \<open>
  C8 at the price text \<open>nan\<close>: the row is accepted, and the price of the typed record
  is NaN, which is not greater than zero.
\<close>

theorem nan_price_accepted:
  "validate_row raw_nan_price =
     Inr (Accepted (PDict [(''flight_id'', PStr ''AB12''), (''origin'', PStr ''LHR''),
            (''destination'', PStr ''JFK''), (''departure_datetime'', PStr ''01/15/2025 10:00''),
            (''arrival_datetime'', PStr ''01/15/2025 18:00''), (''price'', PFloat NaN)]))
   \<and> \<not> float_less (Finite 0) NaN"
proof -
  have h: "has_fields raw_nan_price ''AB12'' ''LHR'' ''JFK'' ''01/15/2025 10:00''
             ''01/15/2025 18:00'' ''nan''"
    by (simp add: has_fields_def raw_nan_price_def)
  have v: "validate_flight raw_nan_price = Inr (True, [])"
    using validate_flight_present [OF h] by (simp add: reasons_nan)
  show ?thesis
    by (simp add: validate_row_def v py_bind_def convert_present [OF h float_nan])
qed

section \<open>The query engine\<close>

subsection \<open>The exceptions that can leave the matcher\<close>

lemma py_strptime_error: "py_strptime v f = Inl e \<Longrightarrow> e = ValueError \<or> e = TypeError"
  by (cases v) (auto dest: strptime_error)

lemma float_of_int_error: "float_of_int i = Inl e \<Longrightarrow> e = OverflowError"
  by (auto simp: float_of_int_def split: option.splits)

lemma py_float_error:
  "py_float v = Inl e \<Longrightarrow> e = ValueError \<or> e = TypeError \<or> e = OverflowError"
  by (cases v) (auto dest: float_of_str_error float_of_int_error)

lemma py_contains_error: "py_contains q k = Inl e \<Longrightarrow> e = TypeError"
  by (cases q) auto

lemma py_get_error: "py_get f k = Inl e \<Longrightarrow> e = AttributeError"
  by (cases f) auto

lemma py_getitem_error: "py_getitem q k = Inl e \<Longrightarrow> e = TypeError \<or> e = KeyError"
  by (cases q) (auto split: option.splits)

lemma py_getitem_present:
  "py_contains q k = Inr True \<Longrightarrow> py_getitem q k = Inl e \<Longrightarrow> e = TypeError"
  by (cases q) (auto split: option.splits simp: map_of_eq_None_iff)

lemma exact_loop_error:
  "exact_loop flight query fs = Inl e \<Longrightarrow> e = TypeError \<or> e = AttributeError"
proof (induction fs)
  case Nil
  then show ?case by simp
next
  case (Cons field rest)
  show ?case
  proof (cases "py_contains query field")
    case (Inl x)
    with Cons.prems show ?thesis by (auto simp: py_bind_def dest: py_contains_error)
  next
    case (Inr present)
    show ?thesis
    proof (cases present)
      case False
      with Inr Cons show ?thesis by (simp add: py_bind_def)
    next
      case True
      with Inr Cons show ?thesis
        by (auto simp: py_bind_def split: sum.splits if_splits
            dest: py_get_error py_getitem_present)
    qed
  qed
qed

lemma try_except_error:
  "try_except body handled h = Inl e \<Longrightarrow> body = Inl e \<and> e \<notin> set handled"
  by (auto simp: try_except_def split: sum.splits if_splits)

lemma py_bind_Inl:
  "py_bind m f = Inl e \<Longrightarrow> m = Inl e \<or> (\<exists>x. m = Inr x \<and> f x = Inl e)"
  by (auto simp: py_bind_def split: sum.splits)

lemma departure_block_error:
  "departure_block flight query = Inl e \<Longrightarrow> e = TypeError"
  unfolding departure_block_def
  apply (auto dest!: py_bind_Inl try_except_error split: if_splits)
  using py_contains_error py_strptime_error py_getitem_error by blast+

lemma arrival_block_error:
  "arrival_block flight query = Inl e \<Longrightarrow> e = TypeError"
  unfolding arrival_block_def
  apply (auto dest!: py_bind_Inl try_except_error split: if_splits)
  using py_contains_error py_strptime_error py_getitem_error by blast+

lemma price_block_error:
  "price_block flight query = Inl e \<Longrightarrow> e = TypeError \<or> e = OverflowError"
  unfolding price_block_def
  apply (auto dest!: py_bind_Inl try_except_error split: if_splits)
  using py_contains_error py_float_error py_getitem_error by blast+

lemma flight_matches_query_error:
  "flight_matches_query flight query = Inl e \<Longrightarrow>
     e = TypeError \<or> e = AttributeError \<or> e = OverflowError"
  unfolding flight_matches_query_def
  apply (auto dest!: py_bind_Inl split: if_splits)
  using exact_loop_error departure_block_error arrival_block_error price_block_error
  by blast+

lemma execute_loop_eq:
  "execute_loop flights query matches =
     (case first_error (map (\<lambda>f. flight_matches_query f query) flights) of
        Some e \<Rightarrow> Inl e
      | None \<Rightarrow> Inr (matches @ filter (\<lambda>f. flight_matches_query f query = Inr True) flights))"
proof (induction flights arbitrary: matches)
  case Nil
  then show ?case by simp
next
  case (Cons f fs)
  then show ?case
    by (cases "flight_matches_query f query") (auto simp: py_bind_def split: option.splits)
qed

lemma execute_loop_error:
  "execute_loop flights query matches = Inl e \<Longrightarrow>
     e = TypeError \<or> e = AttributeError \<or> e = OverflowError"
proof (induction flights arbitrary: matches)
  case Nil
  then show ?case by simp
next
  case (Cons f fs)
  then show ?case
    by (auto simp: py_bind_def split: sum.splits dest: flight_matches_query_error)
qed

subsection \<open>Executing a query\<close>

lemma matches_ab12_lhr: "flight_matches_query flight_ab12 query_lhr_500 = Inr True"
  by code_simp

lemma matches_cd34_lhr: "flight_matches_query flight_cd34 query_lhr_500 = Inr False"
  by code_simp

lemma matches_ab12_str: "flight_matches_query flight_ab12 (PStr ''abc'') = Inr True"
  by code_simp

lemma absent_departure:
  "''departure_datetime'' \<notin> fst ` set kvs \<Longrightarrow> departure_block flight (PDict kvs) = Inr True"
  by (simp add: departure_block_def py_bind_def)

lemma absent_arrival:
  "''arrival_datetime'' \<notin> fst ` set kvs \<Longrightarrow> arrival_block flight (PDict kvs) = Inr True"
  by (simp add: arrival_block_def py_bind_def)

lemma absent_price:
  "''price'' \<notin> fst ` set kvs \<Longrightarrow> price_block flight (PDict kvs) = Inr True"
  by (simp add: price_block_def py_bind_def)

lemma absent_exact:
  "exact_loop flight (PDict kvs) fs =
     exact_loop flight (PDict kvs) (filter (\<lambda>key. key \<in> fst ` set kvs) fs)"
  by (induction fs) (simp_all add: py_bind_def split: sum.splits)

lemma no_known_key:
  assumes "\<forall>key \<in> set known_keys. key \<notin> fst ` set kvs"
  shows "flight_matches_query flight (PDict kvs) = Inr True"
proof -
  have "filter (\<lambda>key. key \<in> fst ` set kvs) exact_match_fields = []"
    using assms by (auto simp: known_keys_def filter_empty_conv)
  then have "exact_loop flight (PDict kvs) exact_match_fields = Inr True"
    using absent_exact [of flight kvs exact_match_fields] by simp
  moreover have "departure_block flight (PDict kvs) = Inr True"
    "arrival_block flight (PDict kvs) = Inr True" "price_block flight (PDict kvs) = Inr True"
    using assms by (simp_all add: known_keys_def absent_departure absent_arrival absent_price)
  ultimately show ?thesis
    by (simp add: flight_matches_query_def py_bind_def)
qed

lemma all_match:
  assumes "\<And>flight. flight_matches_query flight query = Inr True"
  shows "execute_query flights query = Inr flights"
proof -
  have "first_error (map (\<lambda>f. flight_matches_query f query) fs) = None" for fs
    by (induction fs) (simp_all add: assms)
  then show ?thesis
    by (simp add: execute_query_def execute_loop_eq assms)
qed

text \<open>
  What \<open>execute_query\<close> computes: when the matcher raises on a record, the first such
  exception leaves \<open>execute_query\<close>; when the matcher returns on every record, the result
  is the working set filtered by it, in the working set's order. A query with no key, and
  any query object with none of the six known keys, matches every record and returns the
  working set unchanged; a criterion whose key is absent from the query passes.
\<close>

theorem execute_query_filter:
  "execute_query flights query =
     (case first_error (map (\<lambda>flight. flight_matches_query flight query) flights) of
        Some e \<Rightarrow> Inl e
      | None \<Rightarrow> Inr (filter (\<lambda>flight. flight_matches_query flight query = Inr True) flights))
   \<and> ((\<forall>flight \<in> set flights. \<exists>b. flight_matches_query flight query = Inr b) \<longrightarrow>
        execute_query flights query =
          Inr (filter (\<lambda>flight. flight_matches_query flight query = Inr True) flights))
   \<and> flight_matches_query flight (PDict []) = Inr True
   \<and> execute_query flights (PDict []) = Inr flights
   \<and> ((\<forall>key \<in> set known_keys. key \<notin> fst ` set kvs) \<longrightarrow>
        flight_matches_query flight (PDict kvs) = Inr True
        \<and> execute_query flights (PDict kvs) = Inr flights)
   \<and> exact_loop flight (PDict kvs) exact_match_fields =
       exact_loop flight (PDict kvs) (filter (\<lambda>key. key \<in> fst ` set kvs) exact_match_fields)
   \<and> (''departure_datetime'' \<notin> fst ` set kvs \<longrightarrow> departure_block flight (PDict kvs) = Inr True)
   \<and> (''arrival_datetime'' \<notin> fst ` set kvs \<longrightarrow> arrival_block flight (PDict kvs) = Inr True)
   \<and> (''price'' \<notin> fst ` set kvs \<longrightarrow> price_block flight (PDict kvs) = Inr True)"
proof -
  have eq: "execute_query flights query =
     (case first_error (map (\<lambda>flight. flight_matches_query flight query) flights) of
        Some e \<Rightarrow> Inl e
      | None \<Rightarrow> Inr (filter (\<lambda>flight. flight_matches_query flight query = Inr True) flights))"
    by (simp add: execute_query_def execute_loop_eq split: option.splits)
  have none: "first_error (map (\<lambda>f. flight_matches_query f query) fs) = None"
    if "\<forall>f \<in> set fs. \<exists>b. flight_matches_query f query = Inr b" for fs
    using that by (induction fs) auto
  have total: "(\<forall>flight \<in> set flights. \<exists>b. flight_matches_query flight query = Inr b) \<longrightarrow>
        execute_query flights query =
          Inr (filter (\<lambda>flight. flight_matches_query flight query = Inr True) flights)"
    by (simp add: eq none)
  have empty: "flight_matches_query f (PDict []) = Inr True" for f
    by (rule no_known_key) simp
  have c3: "flight_matches_query flight (PDict []) = Inr True"
    by (rule empty)
  have c4: "execute_query flights (PDict []) = Inr flights"
    by (rule all_match) (rule empty)
  have c5: "(\<forall>key \<in> set known_keys. key \<notin> fst ` set kvs) \<longrightarrow>
        flight_matches_query flight (PDict kvs) = Inr True
        \<and> execute_query flights (PDict kvs) = Inr flights"
  proof (intro impI conjI)
    assume a: "\<forall>key \<in> set known_keys. key \<notin> fst ` set kvs"
    show "flight_matches_query flight (PDict kvs) = Inr True"
      by (rule no_known_key [OF a])
    show "execute_query flights (PDict kvs) = Inr flights"
      by (rule all_match) (rule no_known_key [OF a])
  qed
  have c6: "exact_loop flight (PDict kvs) exact_match_fields =
       exact_loop flight (PDict kvs) (filter (\<lambda>key. key \<in> fst ` set kvs) exact_match_fields)"
    by (rule absent_exact)
  have c7: "''departure_datetime'' \<notin> fst ` set kvs \<longrightarrow> departure_block flight (PDict kvs) = Inr True"
    by (simp add: absent_departure)
  have c8: "''arrival_datetime'' \<notin> fst ` set kvs \<longrightarrow> arrival_block flight (PDict kvs) = Inr True"
    by (simp add: absent_arrival)
  have c9: "''price'' \<notin> fst ` set kvs \<longrightarrow> price_block flight (PDict kvs) = Inr True"
    by (simp add: absent_price)
  show ?thesis
    by (intro conjI) (fact eq total c3 c4 c5 c6 c7 c8 c9)+
qed

theorem execute_query_filter_witness:
  "flight_matches_query flight_ab12 query_lhr_500 = Inr True
   \<and> flight_matches_query flight_cd34 query_lhr_500 = Inr False
   \<and> execute_query [flight_ab12, flight_cd34] query_lhr_500 = Inr [flight_ab12]
   \<and> set known_keys \<inter> fst ` set [(''airline'', PStr ''XY'')] = {}
   \<and> execute_query [flight_ab12, flight_cd34] (PDict [(''airline'', PStr ''XY'')]) =
       Inr [flight_ab12, flight_cd34]
   \<and> ''price'' \<notin> fst ` set [(''airline'', PStr ''XY'')]
   \<and> price_block flight_ab12 (PDict [(''airline'', PStr ''XY'')]) = Inr True"
  using execute_query_filter [of "[flight_ab12, flight_cd34]" query_lhr_500 flight_ab12
      "[(''airline'', PStr ''XY'')]"]
  by (auto simp: matches_ab12_lhr matches_cd34_lhr known_keys_def exact_match_fields_def)

subsection \<open>Executing a query file\<close>

lemma execute_query_error:
  "execute_query flights query = Inl e \<Longrightarrow>
     e = TypeError \<or> e = AttributeError \<or> e = OverflowError"
  unfolding execute_query_def by (rule execute_loop_error)

lemma results_loop_Inr:
  "results_loop flights qs acc = Inr results \<longleftrightarrow>
     (\<exists>rs. results = acc @ rs
        \<and> list_all2 (\<lambda>query result. \<exists>matches. execute_query flights query = Inr matches
                          \<and> result = query_result query matches) qs rs)"
proof (induction qs arbitrary: acc)
  case Nil
  then show ?case by auto
next
  case (Cons q qs)
  show ?case
  proof (cases "execute_query flights q")
    case (Inl e)
    then show ?thesis by (auto simp: py_bind_def list_all2_Cons1)
  next
    case (Inr ms)
    then show ?thesis
      by (auto simp: py_bind_def Cons.IH list_all2_Cons1 query_result_def)
  qed
qed

lemma results_loop_error:
  "results_loop flights qs acc = Inl e \<Longrightarrow>
     e = TypeError \<or> e = AttributeError \<or> e = OverflowError"
proof (induction qs arbitrary: acc)
  case Nil
  then show ?case by simp
next
  case (Cons q qs)
  then show ?case
    by (auto simp: py_bind_def split: sum.splits dest: execute_query_error)
qed

text \<open>
  What \<open>execute_queries_from_file\<close> computes: a query object is executed as the
  one-element sequence that holds it; for a sequence, the call succeeds exactly with one
  result per element, in input order, each pairing the element with what \<open>execute_query\<close>
  returns for it; and the format error is raised exactly when the decoded content is
  neither an object nor a sequence.
\<close>

theorem execute_queries_shape:
  "execute_queries_from_file flights (PDict kvs) =
     execute_queries_from_file flights (PList [PDict kvs])
   \<and> (execute_queries_from_file flights (PList qs) = Inr results \<longleftrightarrow>
        list_all2 (\<lambda>query result. \<exists>matches. execute_query flights query = Inr matches
                      \<and> result = query_result query matches) qs results)
   \<and> (execute_queries_from_file flights queries = Inl ValueError \<longleftrightarrow>
        \<not> is_dict queries \<and> \<not> is_list queries)"
proof -
  have c1: "execute_queries_from_file flights (PDict kvs) =
     execute_queries_from_file flights (PList [PDict kvs])"
    by (simp add: execute_queries_from_file_def py_bind_def)
  have c2: "execute_queries_from_file flights (PList qs) = Inr results \<longleftrightarrow>
        list_all2 (\<lambda>query result. \<exists>matches. execute_query flights query = Inr matches
                      \<and> result = query_result query matches) qs results"
    by (simp add: execute_queries_from_file_def py_bind_def results_loop_Inr)
  have c3: "execute_queries_from_file flights queries = Inl ValueError \<longleftrightarrow>
        \<not> is_dict queries \<and> \<not> is_list queries"
  proof -
    have l: "execute_queries_from_file flights (PList xs) \<noteq> Inl ValueError" for xs
      using results_loop_error [of flights xs "[]" ValueError]
      by (auto simp: execute_queries_from_file_def py_bind_def)
    show ?thesis
    proof (cases queries)
      case (PDict x)
      have "execute_queries_from_file flights (PDict x) =
          execute_queries_from_file flights (PList [PDict x])"
        by (simp add: execute_queries_from_file_def py_bind_def)
      with PDict l [of "[PDict x]"] show ?thesis by (simp add: is_dict_def)
    next
      case (PList x)
      with l [of x] show ?thesis by (simp add: is_list_def)
    qed (simp_all add: execute_queries_from_file_def py_bind_def is_dict_def is_list_def)
  qed
  show ?thesis
    by (intro conjI) (fact c1 c2 c3)+
qed

theorem execute_queries_shape_witness:
  "execute_queries_from_file [flight_ab12, flight_cd34] query_lhr_500 =
     Inr [query_result query_lhr_500 [flight_ab12]]
   \<and> execute_queries_from_file [flight_ab12, flight_cd34] (PList [query_lhr_500, PDict []]) =
     Inr [query_result query_lhr_500 [flight_ab12], query_result (PDict []) [flight_ab12, flight_cd34]]
   \<and> execute_queries_from_file [flight_ab12, flight_cd34] (PStr ''origin'') = Inl ValueError"
proof -
  have q: "execute_query [flight_ab12, flight_cd34] query_lhr_500 = Inr [flight_ab12]"
    by (simp add: execute_query_def py_bind_def matches_ab12_lhr matches_cd34_lhr)
  have e: "execute_query [flight_ab12, flight_cd34] (PDict []) = Inr [flight_ab12, flight_cd34]"
    by (rule all_match) (rule no_known_key, simp)
  show ?thesis
    using execute_queries_shape [of "[flight_ab12, flight_cd34]" "[(''origin'', PStr ''LHR''), (''price'', PInt 500)]"
        "[query_lhr_500, PDict []]"
        "[query_result query_lhr_500 [flight_ab12], query_result (PDict []) [flight_ab12, flight_cd34]]"
        "PStr ''origin''"]
      execute_queries_shape [of "[flight_ab12, flight_cd34]" "[]" "[query_lhr_500]"
        "[query_result query_lhr_500 [flight_ab12]]" "PNone"]
    by (simp add: q e is_dict_def is_list_def query_lhr_500_def [symmetric])
qed

lemma matches_ab12_number: "flight_matches_query flight_ab12 (PInt 5) = Inl TypeError"
  by code_simp

text \<open>
  C10 at sequences with an element that is no object. The string \<open>"abc"\<close> is taken as a
  query, and since none of the six keys occurs in it, it matches every record: the call
  returns a result and raises no format error, although the message of that error asks for
  "an object or array of query objects". The number \<open>5\<close> as element makes the matcher
  raise \<open>TypeError\<close>, which is not the format error either.
\<close>

theorem non_object_element_accepted:
  "\<not> is_dict (PStr ''abc'')
   \<and> execute_queries_from_file [flight_ab12] (PList [PStr ''abc'']) =
       Inr [query_result (PStr ''abc'') [flight_ab12]]
   \<and> \<not> is_dict (PInt 5)
   \<and> execute_queries_from_file [flight_ab12] (PList [PInt 5]) = Inl TypeError"
  by (simp add: execute_queries_from_file_def execute_query_def py_bind_def matches_ab12_str
      matches_ab12_number query_result_def is_dict_def)

subsection \<open>Records that lack a field\<close>

lemma matches_True_blocks:
  "flight_matches_query flight query = Inr True \<Longrightarrow>
     exact_loop flight query exact_match_fields = Inr True
     \<and> departure_block flight query = Inr True
     \<and> arrival_block flight query = Inr True
     \<and> price_block flight query = Inr True"
  by (auto simp: flight_matches_query_def py_bind_def split: sum.splits if_splits)

lemma matches_from_blocks:
  assumes "exact_loop flight query exact_match_fields = Inr a"
    "departure_block flight query = Inr b" "arrival_block flight query = Inr c"
    "price_block flight query = Inr d"
  shows "flight_matches_query flight query = Inr (a \<and> b \<and> c \<and> d)"
  using assms by (simp add: flight_matches_query_def py_bind_def)

lemma exact_loop_dicts:
  "\<exists>b. exact_loop (PDict fkvs) (PDict qkvs) fs = Inr b"
proof (induction fs)
  case Nil
  then show ?case by auto
next
  case (Cons field rest)
  then show ?case
    by (cases "map_of qkvs field")
       (auto simp: py_bind_def map_of_eq_None_iff split: option.splits)
qed

lemma exact_loop_missing:
  assumes "key \<in> set fs" "map_of qkvs key = Some v" "key \<notin> fst ` set fkvs" "v \<noteq> PNone"
  shows "exact_loop (PDict fkvs) (PDict qkvs) fs = Inr False"
  using assms(1)
proof (induction fs)
  case Nil
  then show ?case by simp
next
  case (Cons field rest)
  have k: "key \<in> fst ` set qkvs" "map_of fkvs key = None"
    using assms by (auto simp: map_of_eq_None_iff dest: map_of_SomeD intro: rev_image_eqI)
  show ?case
  proof (cases "field = key")
    case True
    then show ?thesis
      using assms k by (simp add: py_bind_def py_ne_def)
  next
    case False
    with Cons have ih: "exact_loop (PDict fkvs) (PDict qkvs) rest = Inr False" by simp
    show ?thesis
      by (cases "map_of qkvs field")
         (auto simp: py_bind_def ih map_of_eq_None_iff split: option.splits)
  qed
qed

lemma departure_missing:
  assumes "map_of qkvs ''departure_datetime'' = Some v" "''departure_datetime'' \<notin> fst ` set fkvs"
  shows "departure_block (PDict fkvs) (PDict qkvs) \<noteq> Inr True"
    and "is_str v \<Longrightarrow> departure_block (PDict fkvs) (PDict qkvs) = Inr False"
proof -
  have k: "''departure_datetime'' \<in> fst ` set qkvs" "map_of fkvs ''departure_datetime'' = None"
    using assms by (auto simp: map_of_eq_None_iff dest: map_of_SomeD intro: rev_image_eqI)
  show "departure_block (PDict fkvs) (PDict qkvs) \<noteq> Inr True"
    using assms(1) k
    by (cases "py_strptime v query_datetime_format")
       (auto simp: departure_block_def py_bind_def try_except_def)
  show "departure_block (PDict fkvs) (PDict qkvs) = Inr False" if "is_str v"
    using assms(1) k that
    by (cases v; cases "py_strptime v query_datetime_format")
       (auto simp: departure_block_def py_bind_def try_except_def is_str_def dest: strptime_error)
qed


lemma arrival_missing:
  assumes "map_of qkvs ''arrival_datetime'' = Some v" "''arrival_datetime'' \<notin> fst ` set fkvs"
  shows "arrival_block (PDict fkvs) (PDict qkvs) \<noteq> Inr True"
    and "is_str v \<Longrightarrow> arrival_block (PDict fkvs) (PDict qkvs) = Inr False"
proof -
  have k: "''arrival_datetime'' \<in> fst ` set qkvs" "map_of fkvs ''arrival_datetime'' = None"
    using assms by (auto simp: map_of_eq_None_iff dest: map_of_SomeD intro: rev_image_eqI)
  show "arrival_block (PDict fkvs) (PDict qkvs) \<noteq> Inr True"
    using assms(1) k
    by (cases "py_strptime v query_datetime_format")
       (auto simp: arrival_block_def py_bind_def try_except_def)
  show "arrival_block (PDict fkvs) (PDict qkvs) = Inr False" if "is_str v"
    using assms(1) k that
    by (cases v; cases "py_strptime v query_datetime_format")
       (auto simp: arrival_block_def py_bind_def try_except_def is_str_def dest: strptime_error)
qed

lemma price_missing:
  assumes "map_of qkvs ''price'' = Some v" "''price'' \<notin> fst ` set fkvs"
  shows "price_block (PDict fkvs) (PDict qkvs) \<noteq> Inr True"
    and "py_float v \<noteq> Inl TypeError \<Longrightarrow> py_float v \<noteq> Inl OverflowError \<Longrightarrow>
           price_block (PDict fkvs) (PDict qkvs) = Inr False"
proof -
  have k: "''price'' \<in> fst ` set qkvs" "map_of fkvs ''price'' = None"
    using assms by (auto simp: map_of_eq_None_iff dest: map_of_SomeD intro: rev_image_eqI)
  show "price_block (PDict fkvs) (PDict qkvs) \<noteq> Inr True"
    using assms(1) k
    by (cases "py_float v") (auto simp: price_block_def py_bind_def try_except_def)
  show "price_block (PDict fkvs) (PDict qkvs) = Inr False"
    if "py_float v \<noteq> Inl TypeError" "py_float v \<noteq> Inl OverflowError"
    using assms(1) k that py_float_error [of v]
    by (cases "py_float v") (auto simp: price_block_def py_bind_def try_except_def)
qed

text \<open>On well-typed objects every criterion returns.\<close>

lemma well_typed_str:
  assumes "well_typed kvs" "map_of kvs key = Some v"
    "key = ''departure_datetime'' \<or> key = ''arrival_datetime''"
  shows "\<exists>s. v = PStr s"
  using assms by (cases v) (auto simp: well_typed_def is_str_def)

lemma well_typed_price:
  assumes "well_typed kvs" "map_of kvs ''price'' = Some v"
  shows "(\<exists>x. py_float v = Inr x) \<or> py_float v = Inl ValueError"
  using assms py_float_error [of v]
  by (cases "py_float v") (auto simp: well_typed_def)

lemma datetime_body_returns:
  assumes "well_typed fkvs" "well_typed qkvs"
    "key = ''departure_datetime'' \<or> key = ''arrival_datetime''"
  shows "\<exists>b. try_except
           (py_bind (py_getitem (PDict qkvs) key) (\<lambda>qv.
            py_bind (py_strptime qv query_datetime_format) (\<lambda>query_dt.
            py_bind (py_getitem (PDict fkvs) key) (\<lambda>fv.
            py_bind (py_strptime fv query_datetime_format) (\<lambda>flight_dt.
              Inr (g flight_dt query_dt))))))
           [ValueError, KeyError] False = Inr b"
proof (cases "map_of qkvs key")
  case None
  then show ?thesis by (auto simp: py_bind_def try_except_def)
next
  case (Some qv)
  then obtain s where s: "qv = PStr s" using well_typed_str [OF assms(2) Some assms(3)] by blast
  show ?thesis
  proof (cases "strptime s query_datetime_format")
    case (Inl e)
    then show ?thesis using Some s strptime_error [OF Inl]
      by (auto simp: py_bind_def try_except_def)
  next
    case (Inr qd)
    show ?thesis
    proof (cases "map_of fkvs key")
      case None
      then show ?thesis using Some s Inr by (auto simp: py_bind_def try_except_def)
    next
      case fSome: (Some fv)
      then obtain t where t: "fv = PStr t"
        using well_typed_str [OF assms(1) fSome assms(3)] by blast
      show ?thesis
      proof (cases "strptime t query_datetime_format")
        case (Inl e)
        then show ?thesis using Some s Inr fSome t strptime_error [OF Inl]
          by (auto simp: py_bind_def try_except_def)
      next
        case fInr: (Inr fd)
        then show ?thesis using Some s Inr fSome t
          by (auto simp: py_bind_def try_except_def)
      qed
    qed
  qed
qed

lemma departure_block_returns:
  assumes "well_typed fkvs" "well_typed qkvs"
  shows "\<exists>b. departure_block (PDict fkvs) (PDict qkvs) = Inr b"
  using datetime_body_returns [OF assms, of "''departure_datetime''" "\<lambda>f q. \<not> dt_less f q"]
  by (auto simp: departure_block_def py_bind_def)

lemma arrival_block_returns:
  assumes "well_typed fkvs" "well_typed qkvs"
  shows "\<exists>b. arrival_block (PDict fkvs) (PDict qkvs) = Inr b"
  using datetime_body_returns [OF assms, of "''arrival_datetime''" "\<lambda>f q. \<not> dt_less q f"]
  by (auto simp: arrival_block_def py_bind_def)

lemma price_block_returns:
  assumes "well_typed fkvs" "well_typed qkvs"
  shows "\<exists>b. price_block (PDict fkvs) (PDict qkvs) = Inr b"
proof (cases "map_of qkvs ''price''")
  case None
  then show ?thesis by (auto simp: price_block_def py_bind_def map_of_eq_None_iff)
next
  case (Some qv)
  then have k: "''price'' \<in> fst ` set qkvs"
    by (auto dest: map_of_SomeD intro: rev_image_eqI)
  from well_typed_price [OF assms(2) Some] show ?thesis
  proof
    assume "py_float qv = Inl ValueError"
    then show ?thesis using Some k by (auto simp: price_block_def py_bind_def try_except_def)
  next
    assume "\<exists>x. py_float qv = Inr x"
    then obtain x where x: "py_float qv = Inr x" by blast
    show ?thesis
    proof (cases "map_of fkvs ''price''")
      case None
      then show ?thesis using Some k x by (auto simp: price_block_def py_bind_def try_except_def)
    next
      case fSome: (Some fv)
      from well_typed_price [OF assms(1) fSome] show ?thesis
        using Some k x fSome by (auto simp: price_block_def py_bind_def try_except_def)
    qed
  qed
qed

lemma matches_returns:
  assumes "well_typed fkvs" "well_typed qkvs"
  shows "\<exists>b. flight_matches_query (PDict fkvs) (PDict qkvs) = Inr b"
proof -
  obtain a b c d where
    "exact_loop (PDict fkvs) (PDict qkvs) exact_match_fields = Inr a"
    "departure_block (PDict fkvs) (PDict qkvs) = Inr b"
    "arrival_block (PDict fkvs) (PDict qkvs) = Inr c"
    "price_block (PDict fkvs) (PDict qkvs) = Inr d"
    using exact_loop_dicts departure_block_returns [OF assms] arrival_block_returns [OF assms]
      price_block_returns [OF assms] by blast
  then show ?thesis using matches_from_blocks by blast
qed

lemma departure_missing_returns:
  assumes "map_of qkvs ''departure_datetime'' = Some v" "''departure_datetime'' \<notin> fst ` set fkvs"
    "is_str v"
  shows "flight_matches_query (PDict fkvs) (PDict qkvs) = Inr False"
proof -
  obtain x where "exact_loop (PDict fkvs) (PDict qkvs) exact_match_fields = Inr x"
    using exact_loop_dicts by blast
  with departure_missing(2) [OF assms] show ?thesis
    by (simp add: flight_matches_query_def py_bind_def)
qed

lemma missing_never_matches:
  assumes "key \<in> set known_keys" "map_of qkvs key = Some v" "key \<notin> fst ` set fkvs"
    "key \<in> set exact_match_fields \<longrightarrow> v \<noteq> PNone"
  shows "flight_matches_query (PDict fkvs) (PDict qkvs) \<noteq> Inr True"
proof
  assume "flight_matches_query (PDict fkvs) (PDict qkvs) = Inr True"
  note b = matches_True_blocks [OF this]
  from assms(1) consider "key \<in> set exact_match_fields" | "key = ''departure_datetime''"
    | "key = ''arrival_datetime''" | "key = ''price''"
    by (auto simp: known_keys_def)
  then show False
  proof cases
    case 1
    with assms have "exact_loop (PDict fkvs) (PDict qkvs) exact_match_fields = Inr False"
      by (intro exact_loop_missing [of key _ _ v]) auto
    with b show False by simp
  next
    case 2
    with departure_missing(1) [of qkvs v fkvs] assms b show False by simp
  next
    case 3
    with arrival_missing(1) [of qkvs v fkvs] assms b show False by simp
  next
    case 4
    with price_missing(1) [of qkvs v fkvs] assms b show False by simp
  qed
qed

text \<open>
  C3, as amended: let a record object lack a field that a known key of a query object
  refers to, where for \<open>flight_id\<close>, \<open>origin\<close> and \<open>destination\<close> the query value is not
  \<open>null\<close>. Then the matcher never returns \<open>True\<close>. It returns \<open>False\<close> when the key is one
  of the three exact-match keys, when the key is \<open>departure_datetime\<close> with a string as
  query value, and whenever record and query are well typed (datetime values are strings,
  price values are what \<open>float\<close> takes or rejects with \<open>ValueError\<close>).
\<close>

theorem missing_field_no_match:
  assumes "key \<in> set known_keys" "map_of qkvs key = Some v" "key \<notin> fst ` set fkvs"
    "key \<in> set exact_match_fields \<longrightarrow> v \<noteq> PNone"
  shows "flight_matches_query (PDict fkvs) (PDict qkvs) \<noteq> Inr True
    \<and> (key \<in> set exact_match_fields \<longrightarrow>
         flight_matches_query (PDict fkvs) (PDict qkvs) = Inr False)
    \<and> (key = ''departure_datetime'' \<and> is_str v \<longrightarrow>
         flight_matches_query (PDict fkvs) (PDict qkvs) = Inr False)
    \<and> (well_typed fkvs \<and> well_typed qkvs \<longrightarrow>
         flight_matches_query (PDict fkvs) (PDict qkvs) = Inr False)"
proof -
  note n = missing_never_matches [OF assms]
  have e: "flight_matches_query (PDict fkvs) (PDict qkvs) = Inr False"
    if "key \<in> set exact_match_fields"
  proof -
    have "exact_loop (PDict fkvs) (PDict qkvs) exact_match_fields = Inr False"
      using that assms by (intro exact_loop_missing [of key _ _ v]) auto
    then show ?thesis by (simp add: flight_matches_query_def py_bind_def)
  qed
  have w: "flight_matches_query (PDict fkvs) (PDict qkvs) = Inr False"
    if "well_typed fkvs \<and> well_typed qkvs"
  proof -
    from that obtain b where "flight_matches_query (PDict fkvs) (PDict qkvs) = Inr b"
      using matches_returns by blast
    with n show ?thesis by (cases b) auto
  qed
  have d: "flight_matches_query (PDict fkvs) (PDict qkvs) = Inr False"
    if "key = ''departure_datetime'' \<and> is_str v"
    using that assms departure_missing_returns [of qkvs v fkvs] by simp
  from n e d w show ?thesis by blast
qed

lemma matches_no_id_null: "flight_matches_query flight_no_id query_id_null = Inr True"
  by code_simp

text \<open>
  C3 as stated fails for the query value \<open>null\<close> on an exact-match key: the missing field
  reads as \<open>None\<close> (\<open>flight.get(field)\<close>), which equals the query value, so the record
  matches.
\<close>

theorem missing_field_counterexample:
  "''flight_id'' \<in> fst ` set [(''flight_id'', PNone)]
   \<and> ''flight_id'' \<notin> fst ` set [(''origin'', PStr ''LHR''), (''destination'', PStr ''JFK''),
            (''departure_datetime'', PStr ''01/15/2025 10:00''),
            (''arrival_datetime'', PStr ''01/15/2025 18:00''), (''price'', PFloat (Finite 450))]
   \<and> flight_matches_query
        (PDict [(''origin'', PStr ''LHR''), (''destination'', PStr ''JFK''),
            (''departure_datetime'', PStr ''01/15/2025 10:00''),
            (''arrival_datetime'', PStr ''01/15/2025 18:00''), (''price'', PFloat (Finite 450))])
        (PDict [(''flight_id'', PNone)]) = Inr True"
  using matches_no_id_null by (simp add: flight_no_id_def query_id_null_def)


theorem missing_field_no_match_witness:
  "''flight_id'' \<in> set known_keys
   \<and> map_of [(''flight_id'', PStr ''AB12'')] ''flight_id'' = Some (PStr ''AB12'')
   \<and> ''flight_id'' \<notin> fst ` set [(''origin'', PStr ''LHR'')]
   \<and> ''flight_id'' \<in> set exact_match_fields \<and> PStr ''AB12'' \<noteq> PNone
   \<and> flight_matches_query (PDict [(''origin'', PStr ''LHR'')])
         (PDict [(''flight_id'', PStr ''AB12'')]) = Inr False
   \<and> ''price'' \<in> set known_keys
   \<and> map_of [(''price'', PInt 500)] ''price'' = Some (PInt 500)
   \<and> ''price'' \<notin> fst ` set [(''origin'', PStr ''LHR'')]
   \<and> ''price'' \<notin> set exact_match_fields
   \<and> well_typed [(''origin'', PStr ''LHR'')] \<and> well_typed [(''price'', PInt 500)]
   \<and> flight_matches_query (PDict [(''origin'', PStr ''LHR'')])
         (PDict [(''price'', PInt 500)]) = Inr False"
proof -
  have f: "float_of_int 500 = Inr (Finite 500)" by code_simp
  have w: "well_typed [(''origin'', PStr ''LHR'')]" "well_typed [(''price'', PInt 500)]"
    by (simp_all add: well_typed_def f)
  show ?thesis
    using missing_field_no_match [of "''flight_id''" "[(''flight_id'', PStr ''AB12'')]"
        "PStr ''AB12''" "[(''origin'', PStr ''LHR'')]"]
      missing_field_no_match [of "''price''" "[(''price'', PInt 500)]"
        "PInt 500" "[(''origin'', PStr ''LHR'')]"] w
    by (simp add: known_keys_def exact_match_fields_def)
qed

subsection \<open>Values of an unexpected type\<close>

text \<open>
  C1 at a validated record and a query whose \<open>departure_datetime\<close> is a JSON number:
  \<open>strptime\<close> raises \<open>TypeError\<close>, which the \<open>except (ValueError, KeyError)\<close> clause
  does not catch, so the matcher raises instead of returning \<open>False\<close>.
\<close>

theorem datetime_number_query_raises:
  "flight_matches_query flight_ab12 (PDict [(''departure_datetime'', PInt 20250116)]) =
     Inl TypeError"
  by code_simp

text \<open>
  C2 where one side of the departure criterion is not a string: the query value \<open>null\<close>,
  or a number in the record. The criterion does not fail closed; the matcher raises
  \<open>TypeError\<close>.
\<close>

theorem departure_criterion_raises:
  "departure_block flight_iso (PDict [(''departure_datetime'', PNone)]) = Inl TypeError
   \<and> flight_matches_query flight_iso (PDict [(''departure_datetime'', PNone)]) = Inl TypeError
   \<and> flight_matches_query flight_numeric_departure
        (PDict [(''departure_datetime'', PStr ''2025-01-14 00:00'')]) = Inl TypeError"
  by code_simp

text \<open>
  C4 at queries whose price is \<open>null\<close> or a list: \<open>float\<close> raises \<open>TypeError\<close> and the
  matcher returns no boolean.
\<close>

theorem matcher_raises:
  "flight_matches_query flight_ab12 (PDict [(''price'', PNone)]) = Inl TypeError
   \<and> flight_matches_query flight_ab12 (PDict [(''price'', PList [PInt 500])]) = Inl TypeError"
  by code_simp

lemma matches_price_null:
  "flight_matches_query flight_ab12 (PDict [(''price'', PNone)]) = Inl TypeError"
  by code_simp

text \<open>
  C9 at a working set of two records and the query whose price is \<open>null\<close>: the matcher
  raises \<open>TypeError\<close> on the first record, the exception leaves \<open>execute_query\<close>, and no
  list of matching records is returned.
\<close>

theorem execute_query_raises:
  "execute_query [flight_ab12, flight_cd34] (PDict [(''price'', PNone)]) = Inl TypeError"
  by (simp add: execute_query_def py_bind_def matches_price_null)

subsection \<open>The storage format against the query format\<close>

lemma pattern_storage:
  "pattern datetime_format =
     Some [Group (CHR ''m'') [[''1'', ''012''], [''0'', nonzero], [nonzero]], Lit (CHR ''/''),
           Group (CHR ''d'') [[''3'', ''01''], [''12'', digits], [''0'', nonzero], [nonzero], ['' '', nonzero]],
           Lit (CHR ''/''), Group (CHR ''Y'') [[digits, digits, digits, digits]], Spaces,
           Group (CHR ''H'') [[''2'', ''0123''], [''01'', digits], [digits]], Lit (CHR '':''),
           Group (CHR ''M'') [[''012345'', digits], [digits]]]"
  by (simp add: datetime_format_def directive_def char_isspace_def in_range_def py_ord_def)

lemma pattern_query:
  "pattern query_datetime_format =
     Some [Group (CHR ''Y'') [[digits, digits, digits, digits]], Lit (CHR ''-''),
           Group (CHR ''m'') [[''1'', ''012''], [''0'', nonzero], [nonzero]], Lit (CHR ''-''),
           Group (CHR ''d'') [[''3'', ''01''], [''12'', digits], [''0'', nonzero], [nonzero], ['' '', nonzero]],
           Spaces,
           Group (CHR ''H'') [[''2'', ''0123''], [''01'', digits], [digits]], Lit (CHR '':''),
           Group (CHR ''M'') [[''012345'', digits], [digits]]]"
  by (simp add: query_datetime_format_def directive_def char_isspace_def in_range_def py_ord_def)

lemma match_alt_Some:
  "match_alt alt s = Some (m, r) \<Longrightarrow> s = m @ r \<and> list_all2 (\<lambda>cls c. c \<in> set cls) alt m"
proof (induction alt s arbitrary: m r rule: match_alt.induct)
  case (1 s)
  then show ?case by simp
next
  case (2 cls rest)
  then show ?case by simp
next
  case (3 cls rest c s)
  then show ?case by (auto split: if_splits option.splits)
qed

lemma match_group_mem:
  "(m, r) \<in> set (match_group alts s) \<Longrightarrow> \<exists>alt \<in> set alts. match_alt alt s = Some (m, r)"
  by (auto simp: match_group_def List.map_filter_def)

lemma re_match_Group:
  "re_match (Group g alts # items) s \<noteq> [] \<Longrightarrow>
     \<exists>alt m r. alt \<in> set alts \<and> match_alt alt s = Some (m, r) \<and> re_match items r \<noteq> []"
proof -
  assume "re_match (Group g alts # items) s \<noteq> []"
  then obtain m r where "(m, r) \<in> set (match_group alts s)" "re_match items r \<noteq> []"
    by auto
  with match_group_mem show ?thesis by blast
qed

lemma fold_case_upper:
  assumes "in_range 65 90 x"
  shows "py_ord (fold_case x) = py_ord x + 32"
proof -
  have "py_ord x + 32 < 256" using assms by (simp add: in_range_def)
  then have "of_char (char_of (py_ord x + 32) :: char) = py_ord x + 32"
    by simp
  then show ?thesis using assms by (simp add: fold_case_def py_ord_def)
qed

lemma fold_case_nonletter:
  assumes "fold_case x = c" "\<not> in_range 97 122 c"
  shows "x = c"
proof (cases "in_range 65 90 x")
  case True
  from fold_case_upper [OF True] assms(1) have "py_ord c = py_ord x + 32" by simp
  with True assms(2) show ?thesis by (simp add: in_range_def)
next
  case False
  with assms(1) show ?thesis by (simp add: fold_case_def)
qed

lemma re_match_Lit:
  assumes "re_match (Lit c # items) s \<noteq> []" "\<not> in_range 65 90 c" "\<not> in_range 97 122 c"
  shows "\<exists>r. s = c # r \<and> re_match items r \<noteq> []"
proof (cases s)
  case Nil
  with assms show ?thesis by simp
next
  case (Cons x r)
  with assms(1) have f: "fold_case x = fold_case c" and m: "re_match items r \<noteq> []"
    by (auto split: if_splits)
  from assms(2) have "fold_case c = c" by (simp add: fold_case_def)
  with f have "fold_case x = c" by simp
  from fold_case_nonletter [OF this assms(3)] have "x = c" .
  with Cons m show ?thesis by simp
qed

lemma strptime_matches:
  "strptime s f = Inr d \<Longrightarrow> pattern f = Some items \<Longrightarrow> re_match items s \<noteq> []"
  by (auto simp: strptime_def split: list.splits)

text \<open>A text in the storage format has a slash as second or third character.\<close>

lemma storage_shape:
  assumes "strptime s datetime_format = Inr d"
  shows "(\<exists>c r. s = c # CHR ''/'' # r) \<or> (\<exists>c1 c2 r. s = c1 # c2 # CHR ''/'' # r)"
proof -
  let ?rest = "[Group (CHR ''d'') [[''3'', ''01''], [''12'', digits], [''0'', nonzero], [nonzero], ['' '', nonzero]],
           Lit (CHR ''/''), Group (CHR ''Y'') [[digits, digits, digits, digits]], Spaces,
           Group (CHR ''H'') [[''2'', ''0123''], [''01'', digits], [digits]], Lit (CHR '':''),
           Group (CHR ''M'') [[''012345'', digits], [digits]]]"
  from assms have "re_match (Group (CHR ''m'') [[''1'', ''012''], [''0'', nonzero], [nonzero]]
      # Lit (CHR ''/'') # ?rest) s \<noteq> []"
    by (rule strptime_matches) (rule pattern_storage)
  from re_match_Group [OF this] obtain alt m r where
    alt: "alt \<in> set [[''1'', ''012''], [''0'', nonzero], [nonzero]]"
    and ma: "match_alt alt s = Some (m, r)" and r: "re_match (Lit (CHR ''/'') # ?rest) r \<noteq> []"
    by blast
  from re_match_Lit [OF r] obtain r' where r': "r = CHR ''/'' # r'"
    by (auto simp: in_range_def py_ord_def)
  from match_alt_Some [OF ma] have s: "s = m @ r" and l: "length m = length alt"
    by (auto dest: list_all2_lengthD)
  from alt l have "length m = 2 \<or> length m = 1" by auto
  then show ?thesis
  proof
    assume "length m = 2"
    then obtain c1 c2 where "m = [c1, c2]"
      by (cases m; cases "tl m") auto
    with s r' show ?thesis by simp
  next
    assume "length m = 1"
    then obtain c where "m = [c]" by (cases m) auto
    with s r' show ?thesis by simp
  qed
qed

text \<open>A text in the query format starts with four digits.\<close>

lemma query_shape:
  assumes "strptime s query_datetime_format = Inr d"
  shows "\<exists>c1 c2 c3 c4 r. s = c1 # c2 # c3 # c4 # r \<and> c2 \<in> set digits \<and> c3 \<in> set digits"
proof -
  let ?rest = "[Lit (CHR ''-''),
           Group (CHR ''m'') [[''1'', ''012''], [''0'', nonzero], [nonzero]], Lit (CHR ''-''),
           Group (CHR ''d'') [[''3'', ''01''], [''12'', digits], [''0'', nonzero], [nonzero], ['' '', nonzero]],
           Spaces,
           Group (CHR ''H'') [[''2'', ''0123''], [''01'', digits], [digits]], Lit (CHR '':''),
           Group (CHR ''M'') [[''012345'', digits], [digits]]]"
  from assms have "re_match (Group (CHR ''Y'') [[digits, digits, digits, digits]] # ?rest) s \<noteq> []"
    by (rule strptime_matches) (rule pattern_query)
  from re_match_Group [OF this] obtain m r where
    ma: "match_alt [digits, digits, digits, digits] s = Some (m, r)"
    by auto
  from match_alt_Some [OF ma] have s: "s = m @ r"
    and l: "list_all2 (\<lambda>cls c. c \<in> set cls) [digits, digits, digits, digits] m"
    by auto
  from l obtain c1 c2 c3 c4 where "m = [c1, c2, c3, c4]" "c2 \<in> set digits" "c3 \<in> set digits"
    by (auto simp: list_all2_Cons1)
  with s show ?thesis by simp
qed

lemma storage_not_query:
  assumes "strptime s datetime_format = Inr d"
  shows "strptime s query_datetime_format = Inl ValueError"
proof (cases "strptime s query_datetime_format")
  case (Inl e)
  with strptime_error show ?thesis by blast
next
  case (Inr q)
  from query_shape [OF Inr] obtain c1 c2 c3 c4 r where
    s: "s = c1 # c2 # c3 # c4 # r" and c: "c2 \<in> set digits" "c3 \<in> set digits"
    by blast
  from c have "c2 \<noteq> CHR ''/''" "c3 \<noteq> CHR ''/''" by (auto simp: digits_def)
  with storage_shape [OF assms] s show ?thesis by auto
qed

lemma map_of_key_mem: "map_of kvs key = Some v \<Longrightarrow> key \<in> fst ` set kvs"
  by (auto dest: map_of_SomeD intro: rev_image_eqI)

lemma not_less_le: "(\<not> dt_less a b) = dt_le b a"
  by (auto simp: dt_less_def dt_le_def)

lemma departure_block_strings:
  assumes "map_of qkvs ''departure_datetime'' = Some (PStr qs)"
    "map_of fkvs ''departure_datetime'' = Some (PStr fs)"
  shows "departure_block (PDict fkvs) (PDict qkvs) =
     Inr (\<exists>qd fd. strptime qs query_datetime_format = Inr qd
            \<and> strptime fs query_datetime_format = Inr fd \<and> dt_le qd fd)"
  using assms map_of_key_mem [OF assms(1)]
  by (cases "strptime qs query_datetime_format"; cases "strptime fs query_datetime_format")
     (auto simp: departure_block_def py_bind_def try_except_def not_less_le dest: strptime_error)

lemma arrival_block_strings:
  assumes "map_of qkvs ''arrival_datetime'' = Some (PStr qs)"
    "map_of fkvs ''arrival_datetime'' = Some (PStr fs)"
  shows "arrival_block (PDict fkvs) (PDict qkvs) =
     Inr (\<exists>qd fd. strptime qs query_datetime_format = Inr qd
            \<and> strptime fs query_datetime_format = Inr fd \<and> dt_le fd qd)"
  using assms map_of_key_mem [OF assms(1)]
  by (cases "strptime qs query_datetime_format"; cases "strptime fs query_datetime_format")
     (auto simp: arrival_block_def py_bind_def try_except_def not_less_le dest: strptime_error)

lemma departure_block_storage:
  assumes "map_of fkvs ''departure_datetime'' = Some (PStr dep)"
    "strptime dep datetime_format = Inr d" "map_of qkvs ''departure_datetime'' = Some v"
  shows "departure_block (PDict fkvs) (PDict qkvs) \<noteq> Inr True"
    and "is_str v \<Longrightarrow> departure_block (PDict fkvs) (PDict qkvs) = Inr False"
proof -
  note n = storage_not_query [OF assms(2)]
  show "departure_block (PDict fkvs) (PDict qkvs) \<noteq> Inr True"
    using assms(1,3) n map_of_key_mem [OF assms(3)]
    by (cases "py_strptime v query_datetime_format")
       (auto simp: departure_block_def py_bind_def try_except_def)
  show "departure_block (PDict fkvs) (PDict qkvs) = Inr False" if "is_str v"
  proof -
    from that obtain qs where "v = PStr qs" by (cases v) (auto simp: is_str_def)
    with departure_block_strings [of qkvs qs fkvs dep] assms n show ?thesis by simp
  qed
qed

lemma arrival_block_storage:
  assumes "map_of fkvs ''arrival_datetime'' = Some (PStr arr)"
    "strptime arr datetime_format = Inr a" "map_of qkvs ''arrival_datetime'' = Some v"
  shows "arrival_block (PDict fkvs) (PDict qkvs) \<noteq> Inr True"
    and "is_str v \<Longrightarrow> arrival_block (PDict fkvs) (PDict qkvs) = Inr False"
proof -
  note n = storage_not_query [OF assms(2)]
  show "arrival_block (PDict fkvs) (PDict qkvs) \<noteq> Inr True"
    using assms(1,3) n map_of_key_mem [OF assms(3)]
    by (cases "py_strptime v query_datetime_format")
       (auto simp: arrival_block_def py_bind_def try_except_def)
  show "arrival_block (PDict fkvs) (PDict qkvs) = Inr False" if "is_str v"
  proof -
    from that obtain qs where "v = PStr qs" by (cases v) (auto simp: is_str_def)
    with arrival_block_strings [of qkvs qs fkvs arr] assms n show ?thesis by simp
  qed
qed

text \<open>
  A record object whose two datetime fields are strings in the storage format never
  matches a query object with a \<open>departure_datetime\<close> or an \<open>arrival_datetime\<close> key: no
  text in the storage format parses under the query format, so the matcher never returns
  \<open>True\<close>, and it returns \<open>False\<close> when the datetime values of the query are strings.
\<close>

theorem storage_format_never_matches:
  assumes "map_of fkvs ''departure_datetime'' = Some (PStr dep)"
    "strptime dep datetime_format = Inr d"
    "map_of fkvs ''arrival_datetime'' = Some (PStr arr)"
    "strptime arr datetime_format = Inr a"
    "''departure_datetime'' \<in> fst ` set qkvs \<or> ''arrival_datetime'' \<in> fst ` set qkvs"
  shows "strptime dep query_datetime_format = Inl ValueError
     \<and> strptime arr query_datetime_format = Inl ValueError
     \<and> flight_matches_query (PDict fkvs) (PDict qkvs) \<noteq> Inr True
     \<and> (datetime_values_are_strings qkvs \<longrightarrow>
          flight_matches_query (PDict fkvs) (PDict qkvs) = Inr False)"
proof -
  have never: "flight_matches_query (PDict fkvs) (PDict qkvs) \<noteq> Inr True"
  proof
    assume "flight_matches_query (PDict fkvs) (PDict qkvs) = Inr True"
    note b = matches_True_blocks [OF this]
    from assms(5) show False
    proof
      assume "''departure_datetime'' \<in> fst ` set qkvs"
      then obtain v where "map_of qkvs ''departure_datetime'' = Some v"
        by (cases "map_of qkvs ''departure_datetime''") (auto simp: map_of_eq_None_iff)
      from departure_block_storage(1) [OF assms(1,2) this] b show False by simp
    next
      assume "''arrival_datetime'' \<in> fst ` set qkvs"
      then obtain v where "map_of qkvs ''arrival_datetime'' = Some v"
        by (cases "map_of qkvs ''arrival_datetime''") (auto simp: map_of_eq_None_iff)
      from arrival_block_storage(1) [OF assms(3,4) this] b show False by simp
    qed
  qed
  have typed: "flight_matches_query (PDict fkvs) (PDict qkvs) = Inr False"
    if w: "datetime_values_are_strings qkvs"
  proof -
    obtain x where x: "exact_loop (PDict fkvs) (PDict qkvs) exact_match_fields = Inr x"
      using exact_loop_dicts by blast
    show ?thesis
    proof (cases "map_of qkvs ''departure_datetime''")
      case (Some v)
      with w have "is_str v" by (simp add: datetime_values_are_strings_def)
      from departure_block_storage(2) [OF assms(1,2) Some this] x show ?thesis
        by (simp add: flight_matches_query_def py_bind_def)
    next
      case None
      then have dk: "''departure_datetime'' \<notin> fst ` set qkvs"
        by (simp add: map_of_eq_None_iff)
      with assms(5) obtain v where v: "map_of qkvs ''arrival_datetime'' = Some v"
        by (cases "map_of qkvs ''arrival_datetime''") (auto simp: map_of_eq_None_iff)
      with w have "is_str v" by (simp add: datetime_values_are_strings_def)
      from arrival_block_storage(2) [OF assms(3,4) v this] x absent_departure [OF dk, of "PDict fkvs"]
      show ?thesis
        by (simp add: flight_matches_query_def py_bind_def)
    qed
  qed
  from storage_not_query [OF assms(2)] storage_not_query [OF assms(4)] never typed
  show ?thesis by blast
qed

text \<open>
  For a query object whose \<open>departure_datetime\<close> is a string: when the record's field is
  a string, the criterion passes exactly when both texts parse under the query format and
  the record's departure is not before the query's; when the record lacks the field, the
  criterion fails. The arrival criterion is the same with the order reversed. A record that
  matches has passed both criteria.
\<close>

theorem datetime_criteria_on_strings:
  "(map_of qkvs ''departure_datetime'' = Some (PStr qs)
      \<and> map_of fkvs ''departure_datetime'' = Some (PStr fs) \<longrightarrow>
      departure_block (PDict fkvs) (PDict qkvs) =
        Inr (\<exists>qd fd. strptime qs query_datetime_format = Inr qd
               \<and> strptime fs query_datetime_format = Inr fd \<and> dt_le qd fd))
   \<and> (map_of qkvs ''departure_datetime'' = Some (PStr qs)
      \<and> map_of fkvs ''departure_datetime'' = None \<longrightarrow>
      departure_block (PDict fkvs) (PDict qkvs) = Inr False)
   \<and> (map_of qkvs ''arrival_datetime'' = Some (PStr qs)
      \<and> map_of fkvs ''arrival_datetime'' = Some (PStr fs) \<longrightarrow>
      arrival_block (PDict fkvs) (PDict qkvs) =
        Inr (\<exists>qd fd. strptime qs query_datetime_format = Inr qd
               \<and> strptime fs query_datetime_format = Inr fd \<and> dt_le fd qd))
   \<and> (map_of qkvs ''arrival_datetime'' = Some (PStr qs)
      \<and> map_of fkvs ''arrival_datetime'' = None \<longrightarrow>
      arrival_block (PDict fkvs) (PDict qkvs) = Inr False)
   \<and> (flight_matches_query (PDict fkvs) (PDict qkvs) = Inr True \<longrightarrow>
        departure_block (PDict fkvs) (PDict qkvs) = Inr True
        \<and> arrival_block (PDict fkvs) (PDict qkvs) = Inr True)"
proof -
  have d2: "departure_block (PDict fkvs) (PDict qkvs) = Inr False"
    if "map_of qkvs ''departure_datetime'' = Some (PStr qs)"
      "map_of fkvs ''departure_datetime'' = None"
    using departure_missing(2) [of qkvs "PStr qs" fkvs] that
    by (simp add: map_of_eq_None_iff is_str_def)
  have a2: "arrival_block (PDict fkvs) (PDict qkvs) = Inr False"
    if "map_of qkvs ''arrival_datetime'' = Some (PStr qs)"
      "map_of fkvs ''arrival_datetime'' = None"
    using arrival_missing(2) [of qkvs "PStr qs" fkvs] that
    by (simp add: map_of_eq_None_iff is_str_def)
  show ?thesis
    using departure_block_strings [of qkvs qs fkvs fs] arrival_block_strings [of qkvs qs fkvs fs]
      d2 a2 matches_True_blocks [of "PDict fkvs" "PDict qkvs"]
    by (intro conjI impI) (simp_all only:)
qed

lemma strptime_iso:
  "strptime ''2025-01-15 10:00'' query_datetime_format =
     Inr \<lparr>year = 2025, month = 1, day = 15, hour = 10, minute = 0\<rparr>"
  "strptime ''2025-01-16 00:00'' query_datetime_format =
     Inr \<lparr>year = 2025, month = 1, day = 16, hour = 0, minute = 0\<rparr>"
  "strptime ''2025-01-14 00:00'' query_datetime_format =
     Inr \<lparr>year = 2025, month = 1, day = 14, hour = 0, minute = 0\<rparr>"
  by code_simp+

theorem datetime_criteria_on_strings_witness:
  "departure_block (PDict [(''departure_datetime'', PStr ''2025-01-15 10:00'')])
       (PDict [(''departure_datetime'', PStr ''2025-01-14 00:00'')]) = Inr True
   \<and> departure_block (PDict [(''departure_datetime'', PStr ''2025-01-15 10:00'')])
       (PDict [(''departure_datetime'', PStr ''2025-01-16 00:00'')]) = Inr False
   \<and> departure_block (PDict [(''departure_datetime'', PStr ''01/15/2025 10:00'')])
       (PDict [(''departure_datetime'', PStr ''2025-01-14 00:00'')]) = Inr False
   \<and> arrival_block (PDict [(''arrival_datetime'', PStr ''2025-01-15 10:00'')])
       (PDict [(''arrival_datetime'', PStr ''2025-01-16 00:00'')]) = Inr True
   \<and> arrival_block (PDict [(''origin'', PStr ''LHR'')])
       (PDict [(''arrival_datetime'', PStr ''2025-01-16 00:00'')]) = Inr False"
proof -
  have e: "strptime ''01/15/2025 10:00'' query_datetime_format = Inl ValueError"
    by (rule storage_not_query) (rule strptime_1000)
  show ?thesis
    using datetime_criteria_on_strings [of "[(''departure_datetime'', PStr ''2025-01-14 00:00'')]"
        "''2025-01-14 00:00''" "[(''departure_datetime'', PStr ''2025-01-15 10:00'')]"
        "''2025-01-15 10:00''"]
      datetime_criteria_on_strings [of "[(''departure_datetime'', PStr ''2025-01-16 00:00'')]"
        "''2025-01-16 00:00''" "[(''departure_datetime'', PStr ''2025-01-15 10:00'')]"
        "''2025-01-15 10:00''"]
      datetime_criteria_on_strings [of "[(''departure_datetime'', PStr ''2025-01-14 00:00'')]"
        "''2025-01-14 00:00''" "[(''departure_datetime'', PStr ''01/15/2025 10:00'')]"
        "''01/15/2025 10:00''"]
      datetime_criteria_on_strings [of "[(''arrival_datetime'', PStr ''2025-01-16 00:00'')]"
        "''2025-01-16 00:00''" "[(''arrival_datetime'', PStr ''2025-01-15 10:00'')]"
        "''2025-01-15 10:00''"]
      datetime_criteria_on_strings [of "[(''arrival_datetime'', PStr ''2025-01-16 00:00'')]"
        "''2025-01-16 00:00''" "[(''origin'', PStr ''LHR'')]" "''''"]
    by (simp add: strptime_iso e dt_le_def dt_key_def)
qed

theorem storage_format_never_matches_witness:
  "map_of [(''departure_datetime'', PStr ''01/15/2025 10:00''),
           (''arrival_datetime'', PStr ''01/15/2025 18:00'')] ''departure_datetime'' =
     Some (PStr ''01/15/2025 10:00'')
   \<and> strptime ''01/15/2025 10:00'' datetime_format =
       Inr \<lparr>year = 2025, month = 1, day = 15, hour = 10, minute = 0\<rparr>
   \<and> strptime ''01/15/2025 18:00'' datetime_format =
       Inr \<lparr>year = 2025, month = 1, day = 15, hour = 18, minute = 0\<rparr>
   \<and> ''departure_datetime'' \<in> fst ` set [(''departure_datetime'', PStr ''2025-01-14 00:00'')]
   \<and> datetime_values_are_strings [(''departure_datetime'', PStr ''2025-01-14 00:00'')]
   \<and> strptime ''01/15/2025 10:00'' query_datetime_format = Inl ValueError
   \<and> flight_matches_query
         (PDict [(''departure_datetime'', PStr ''01/15/2025 10:00''),
                 (''arrival_datetime'', PStr ''01/15/2025 18:00'')])
         (PDict [(''departure_datetime'', PStr ''2025-01-14 00:00'')]) = Inr False"
  using storage_format_never_matches [of
      "[(''departure_datetime'', PStr ''01/15/2025 10:00''),
        (''arrival_datetime'', PStr ''01/15/2025 18:00'')]"
      "''01/15/2025 10:00''" "\<lparr>year = 2025, month = 1, day = 15, hour = 10, minute = 0\<rparr>"
      "''01/15/2025 18:00''" "\<lparr>year = 2025, month = 1, day = 15, hour = 18, minute = 0\<rparr>"
      "[(''departure_datetime'', PStr ''2025-01-14 00:00'')]"]
  by (simp add: strptime_1000 strptime_1800 datetime_values_are_strings_def is_str_def)

text \<open>
  On a well-typed record object and a well-typed query object the matcher returns a
  boolean; on any values, the only exceptions that leave it are \<open>TypeError\<close>,
  \<open>AttributeError\<close> and \<open>OverflowError\<close>.
\<close>

theorem matcher_total_on_typed:
  "(well_typed fkvs \<and> well_typed qkvs \<longrightarrow>
      (\<exists>b. flight_matches_query (PDict fkvs) (PDict qkvs) = Inr b))
   \<and> (flight_matches_query flight query = Inl e \<longrightarrow>
        e = TypeError \<or> e = AttributeError \<or> e = OverflowError)"
  using matches_returns [of fkvs qkvs] flight_matches_query_error [of flight query e]
  by blast

lemma well_typed_ab12:
  "well_typed [(''flight_id'', PStr ''AB12''), (''origin'', PStr ''LHR''),
            (''destination'', PStr ''JFK''), (''departure_datetime'', PStr ''01/15/2025 10:00''),
            (''arrival_datetime'', PStr ''01/15/2025 18:00''), (''price'', PFloat (Finite 450))]"
  by (simp add: well_typed_def is_str_def)

theorem matcher_total_on_typed_witness:
  "well_typed [(''flight_id'', PStr ''AB12''), (''origin'', PStr ''LHR''),
            (''destination'', PStr ''JFK''), (''departure_datetime'', PStr ''01/15/2025 10:00''),
            (''arrival_datetime'', PStr ''01/15/2025 18:00''), (''price'', PFloat (Finite 450))]
   \<and> well_typed [(''origin'', PStr ''LHR''), (''price'', PInt 500)]
   \<and> (\<exists>b. flight_matches_query flight_ab12 query_lhr_500 = Inr b)
   \<and> flight_matches_query flight_ab12 (PDict [(''price'', PNone)]) = Inl TypeError"
proof -
  have f: "float_of_int 500 = Inr (Finite 500)" by code_simp
  have w: "well_typed [(''origin'', PStr ''LHR''), (''price'', PInt 500)]"
    by (simp add: well_typed_def f)
  have t: "flight_matches_query flight_ab12 (PDict [(''price'', PNone)]) = Inl TypeError"
    by code_simp
  show ?thesis
    using matcher_total_on_typed [of
        "[(''flight_id'', PStr ''AB12''), (''origin'', PStr ''LHR''),
            (''destination'', PStr ''JFK''), (''departure_datetime'', PStr ''01/15/2025 10:00''),
            (''arrival_datetime'', PStr ''01/15/2025 18:00''), (''price'', PFloat (Finite 450))]"
        "[(''origin'', PStr ''LHR''), (''price'', PInt 500)]"
        flight_ab12 "PDict [(''price'', PNone)]" TypeError] well_typed_ab12 w t
    by (simp add: flight_ab12_def query_lhr_500_def)
qed

section \<open>More on the validator\<close>

lemma validate_flight_missing:
  assumes "\<exists>field \<in> set required_fields. field_missing flight_data field"
  shows "validate_flight flight_data =
           Inr (False, map (\<lambda>field. ''missing '' @ field @ '' field'')
                           (filter (field_missing flight_data) required_fields))"
    and "filter (field_missing flight_data) required_fields \<noteq> []"
proof -
  show n: "filter (field_missing flight_data) required_fields \<noteq> []"
    using assms by (simp add: filter_empty_conv)
  then show "validate_flight flight_data =
      Inr (False, map (\<lambda>field. ''missing '' @ field @ '' field'')
                      (filter (field_missing flight_data) required_fields))"
    by (simp add: validate_flight_def missing_loop_eq)
qed

lemma none_missing_has_fields:
  assumes "\<not> (\<exists>field \<in> set required_fields. field_missing flight_data field)"
  shows "\<exists>fid orig dest dep arr p. has_fields flight_data fid orig dest dep arr p"
  using assms by (auto simp: required_fields_def field_missing_def has_fields_def)

lemma validate_row_present:
  assumes "has_fields flight_data fid orig dest dep arr p"
  shows "\<exists>r. validate_row flight_data = Inr r"
proof (cases "accumulated_reasons fid orig dest dep arr p = []")
  case True
  then have "price_reasons p = []" by (simp add: accumulated_reasons_def)
  then obtain price where p: "float_of_str p = Inr price"
    using price_parses_when_no_reason by blast
  show ?thesis
    by (simp add: validate_row_def validate_flight_present [OF assms] True py_bind_def
        convert_present [OF assms p])
next
  case False
  then show ?thesis
    by (simp add: validate_row_def validate_flight_present [OF assms] py_bind_def)
qed

text \<open>
  \<open>validate_flight\<close> raises on no raw record: it returns its reasons, and the flag that
  says whether there are none. The row step of \<open>parse_file\<close> returns as well.
\<close>

theorem validate_total:
  "(\<exists>reasons. validate_flight flight_data = Inr (reasons = [], reasons))
   \<and> (\<exists>r. validate_row flight_data = Inr r)"
proof (cases "\<exists>field \<in> set required_fields. field_missing flight_data field")
  case True
  from validate_flight_missing [OF True] show ?thesis
    by (auto simp: validate_row_def py_bind_def)
next
  case False
  from none_missing_has_fields [OF False] obtain fid orig dest dep arr p
    where h: "has_fields flight_data fid orig dest dep arr p" by blast
  from validate_flight_present [OF h] validate_row_present [OF h] show ?thesis by auto
qed

lemma not_le_zero: "\<not> float_le x (Finite 0) \<Longrightarrow> x = NaN \<or> float_less (Finite 0) x"
  by (cases x) (auto simp: float_le_def float_eq_def)

lemma price_reasons_cases:
  "price_reasons p =
     (case float_of_str p of
        Inl e \<Rightarrow> [''invalid price format'']
      | Inr x \<Rightarrow> if float_le x (Finite 0) then [''negative price value''] else [])"
  by (simp add: price_reasons_def)

lemma price_format_iff:
  "''invalid price format'' \<in> set (accumulated_reasons fid orig dest dep arr p) \<longleftrightarrow>
     float_of_str p = Inl ValueError"
  using other_reasons_mem(1) [of fid] other_reasons_mem(2) [of "''origin''" orig]
    other_reasons_mem(2) [of "''destination''" dest] other_reasons_mem(3) [of dep arr]
    float_of_str_error [of p]
  by (cases "float_of_str p")
     (auto simp: accumulated_reasons_def datetime_reasons_mem price_reasons_def)

lemma price_negative_iff:
  "''negative price value'' \<in> set (accumulated_reasons fid orig dest dep arr p) \<longleftrightarrow>
     (\<exists>x. float_of_str p = Inr x \<and> float_le x (Finite 0))"
  using other_reasons_mem(1) [of fid] other_reasons_mem(2) [of "''origin''" orig]
    other_reasons_mem(2) [of "''destination''" dest] other_reasons_mem(3) [of dep arr]
  by (cases "float_of_str p")
     (auto simp: accumulated_reasons_def datetime_reasons_mem price_reasons_def)

text \<open>
  For a record with all six fields, "invalid price format" is a reason exactly when
  \<open>float\<close> rejects the price text, "negative price value" exactly when the parsed price is
  at most zero, at most one of the two is produced, and the price of an accepted record is
  greater than zero or NaN.
\<close>

theorem price_check:
  assumes "has_fields flight_data fid orig dest dep arr p"
  shows "\<exists>ok reasons. validate_flight flight_data = Inr (ok, reasons)
     \<and> (''invalid price format'' \<in> set reasons \<longleftrightarrow> float_of_str p = Inl ValueError)
     \<and> (''negative price value'' \<in> set reasons \<longleftrightarrow>
          (\<exists>x. float_of_str p = Inr x \<and> float_le x (Finite 0)))
     \<and> length (filter (\<lambda>r. r = ''invalid price format'' \<or> r = ''negative price value'') reasons) \<le> 1
     \<and> (ok \<longrightarrow> (\<exists>x. float_of_str p = Inr x \<and> (x = NaN \<or> float_less (Finite 0) x)
            \<and> validate_row flight_data =
                Inr (Accepted (PDict [(''flight_id'', PStr fid), (''origin'', PStr orig),
                       (''destination'', PStr dest), (''departure_datetime'', PStr dep),
                       (''arrival_datetime'', PStr arr), (''price'', PFloat x)]))))"
proof (intro exI conjI)
  let ?rs = "accumulated_reasons fid orig dest dep arr p"
  show "validate_flight flight_data = Inr (?rs = [], ?rs)"
    by (rule validate_flight_present [OF assms])
  show "''invalid price format'' \<in> set ?rs \<longleftrightarrow> float_of_str p = Inl ValueError"
    by (rule price_format_iff)
  show "''negative price value'' \<in> set ?rs \<longleftrightarrow>
          (\<exists>x. float_of_str p = Inr x \<and> float_le x (Finite 0))"
    by (rule price_negative_iff)
  show "length (filter (\<lambda>r. r = ''invalid price format'' \<or> r = ''negative price value'') ?rs) \<le> 1"
    by (auto simp: reasons_defs split: sum.splits)
  show "?rs = [] \<longrightarrow> (\<exists>x. float_of_str p = Inr x \<and> (x = NaN \<or> float_less (Finite 0) x)
            \<and> validate_row flight_data =
                Inr (Accepted (PDict [(''flight_id'', PStr fid), (''origin'', PStr orig),
                       (''destination'', PStr dest), (''departure_datetime'', PStr dep),
                       (''arrival_datetime'', PStr arr), (''price'', PFloat x)])))"
  proof
    assume e: "?rs = []"
    then have "price_reasons p = []" by (simp add: accumulated_reasons_def)
    then obtain x where x: "float_of_str p = Inr x" "\<not> float_le x (Finite 0)"
      using price_parses_when_no_reason by blast
    have "validate_row flight_data =
        Inr (Accepted (PDict [(''flight_id'', PStr fid), (''origin'', PStr orig),
               (''destination'', PStr dest), (''departure_datetime'', PStr dep),
               (''arrival_datetime'', PStr arr), (''price'', PFloat x)]))"
      by (simp add: validate_row_def validate_flight_present [OF assms] e py_bind_def
          convert_present [OF assms x(1)])
    with x not_le_zero show "\<exists>x. float_of_str p = Inr x \<and> (x = NaN \<or> float_less (Finite 0) x)
            \<and> validate_row flight_data =
                Inr (Accepted (PDict [(''flight_id'', PStr fid), (''origin'', PStr orig),
                       (''destination'', PStr dest), (''departure_datetime'', PStr dep),
                       (''arrival_datetime'', PStr arr), (''price'', PFloat x)]))"
      by blast
  qed
qed

lemma float_minus_10: "float_of_str ''-10'' = Inr (Finite (- 10))"
  by code_simp

theorem price_check_witness:
  "has_fields (raw_valid(''price'' \<mapsto> ''-10'')) ''AB12'' ''LHR'' ''JFK'' ''01/15/2025 10:00''
      ''01/15/2025 18:00'' ''-10''
   \<and> float_of_str ''-10'' = Inr (Finite (- 10)) \<and> float_le (Finite (- 10)) (Finite 0)
   \<and> validate_flight (raw_valid(''price'' \<mapsto> ''-10'')) = Inr (False, [''negative price value''])
   \<and> has_fields raw_valid ''AB12'' ''LHR'' ''JFK'' ''01/15/2025 10:00''
      ''01/15/2025 18:00'' ''450.0''
   \<and> validate_flight raw_valid = Inr (True, [])
   \<and> float_of_str ''450.0'' = Inr (Finite 450) \<and> float_less (Finite 0) (Finite 450)"
proof -
  have h: "has_fields (raw_valid(''price'' \<mapsto> ''-10'')) ''AB12'' ''LHR'' ''JFK''
      ''01/15/2025 10:00'' ''01/15/2025 18:00'' ''-10''"
    by (simp add: has_fields_def raw_valid_def)
  have h2: "has_fields raw_valid ''AB12'' ''LHR'' ''JFK'' ''01/15/2025 10:00''
      ''01/15/2025 18:00'' ''450.0''"
    by (simp add: has_fields_def raw_valid_def)
  have r: "accumulated_reasons ''AB12'' ''LHR'' ''JFK'' ''01/15/2025 10:00''
      ''01/15/2025 18:00'' ''-10'' = [''negative price value'']"
    by (simp add: reasons_defs evals float_minus_10 dt_le_def dt_key_def float_le_def float_eq_def)
  show ?thesis
    using h h2 price_check [OF h] price_check [OF h2]
      validate_flight_present [OF h] validate_flight_present [OF h2]
    by (simp add: r reasons_valid float_minus_10 float_450 float_le_def float_eq_def)
qed

subsection \<open>Validated records and datetime criteria\<close>

text \<open>
  What validation accepts, no datetime criterion lets through: the typed record of an
  accepted row never matches a query object with a \<open>departure_datetime\<close> or an
  \<open>arrival_datetime\<close> key, and the matcher returns \<open>False\<close> when the datetime values of the
  query are strings.
\<close>

theorem validated_record_excluded:
  assumes "validate_row flight_data = Inr (Accepted typed_flight)"
    "''departure_datetime'' \<in> fst ` set qkvs \<or> ''arrival_datetime'' \<in> fst ` set qkvs"
  shows "flight_matches_query typed_flight (PDict qkvs) \<noteq> Inr True
     \<and> (datetime_values_are_strings qkvs \<longrightarrow>
          flight_matches_query typed_flight (PDict qkvs) = Inr False)"
proof -
  have nm: "\<not> (\<exists>field \<in> set required_fields. field_missing flight_data field)"
  proof
    assume "\<exists>field \<in> set required_fields. field_missing flight_data field"
    from validate_flight_missing(1) [OF this] assms(1) show False
      by (simp add: validate_row_def py_bind_def)
  qed
  from none_missing_has_fields [OF nm] obtain fid orig dest dep arr p
    where h: "has_fields flight_data fid orig dest dep arr p" by blast
  let ?rs = "accumulated_reasons fid orig dest dep arr p"
  note v = validate_flight_present [OF h]
  have e: "?rs = []"
    using assms(1) by (cases "?rs = []") (simp_all add: validate_row_def v py_bind_def)
  then have "price_reasons p = []" by (simp add: accumulated_reasons_def)
  then obtain price where p: "float_of_str p = Inr price"
    using price_parses_when_no_reason by blast
  have t: "typed_flight =
      PDict [(''flight_id'', PStr fid), (''origin'', PStr orig),
             (''destination'', PStr dest), (''departure_datetime'', PStr dep),
             (''arrival_datetime'', PStr arr), (''price'', PFloat price)]"
    using assms(1) by (simp add: validate_row_def v e py_bind_def convert_present [OF h p])
  from e have "datetime_reasons ''invalid departure datetime'' dep = []"
    "datetime_reasons ''invalid arrival datetime'' arr = []"
    by (simp_all add: accumulated_reasons_def)
  then obtain d a where da: "strptime dep datetime_format = Inr d"
    "strptime arr datetime_format = Inr a"
    by (cases "strptime dep datetime_format"; cases "strptime arr datetime_format")
       (simp_all add: datetime_reasons_def)
  show ?thesis
    unfolding t
    using storage_format_never_matches [of
        "[(''flight_id'', PStr fid), (''origin'', PStr orig),
          (''destination'', PStr dest), (''departure_datetime'', PStr dep),
          (''arrival_datetime'', PStr arr), (''price'', PFloat price)]" dep d arr a qkvs]
      da assms(2)
    by simp
qed


theorem validated_record_excluded_witness:
  "validate_row raw_valid = Inr (Accepted flight_ab12)
   \<and> ''departure_datetime'' \<in> fst ` set [(''departure_datetime'', PStr ''2025-01-14 00:00'')]
   \<and> datetime_values_are_strings [(''departure_datetime'', PStr ''2025-01-14 00:00'')]
   \<and> flight_matches_query flight_ab12
         (PDict [(''departure_datetime'', PStr ''2025-01-14 00:00'')]) = Inr False"
proof -
  have h: "has_fields raw_valid ''AB12'' ''LHR'' ''JFK'' ''01/15/2025 10:00''
      ''01/15/2025 18:00'' ''450.0''"
    by (simp add: has_fields_def raw_valid_def)
  have v: "validate_row raw_valid = Inr (Accepted flight_ab12)"
    by (simp add: validate_row_def validate_flight_present [OF h] reasons_valid py_bind_def
        convert_present [OF h float_450] flight_ab12_def)
  show ?thesis
    using v validated_record_excluded [OF v, of "[(''departure_datetime'', PStr ''2025-01-14 00:00'')]"]
    by (simp add: datetime_values_are_strings_def is_str_def)
qed

end
